theory Spec2Isabelle
  imports Main
begin

section \<open>Values and props objects\<close>

text \<open>
  The factories receive a props object built from the named arguments of a template call.
  A value is one of the JavaScript values a template can pass: \<open>undefined\<close>, \<open>null\<close>, a
  boolean, a number, a string or a plain object (the \<open>user\<close> record of the user-info block).
  Numbers are modelled as integers; strings are lists of 8-bit characters, so the model
  covers ASCII text. An object is the list of its own enumerable properties in the order
  \<open>Object.entries\<close> yields them, with pairwise distinct keys.
\<close>

datatype jsval =
    JUndefined
  | JNull
  | JBool bool
  | JNum int
  | JStr string
  | JObj "(string \<times> jsval) list"

type_synonym props = "(string \<times> jsval) list"

datatype error = TypeError

text \<open>Property read \<open>obj[key]\<close> on own properties: a missing key reads as \<open>undefined\<close>.\<close>

definition get_prop :: "props \<Rightarrow> string \<Rightarrow> jsval" where
  "get_prop p k = (case map_of p k of None \<Rightarrow> JUndefined | Some v \<Rightarrow> v)"

text \<open>Assignment \<open>obj[key] = v\<close>: an existing key keeps its place, a new key goes last.\<close>

fun assign :: "props \<Rightarrow> string \<Rightarrow> jsval \<Rightarrow> props" where
  "assign [] k v = [(k, v)]"
| "assign ((k', v') # p) k v = (if k' = k then (k, v) # p else (k', v') # assign p k v)"

text \<open>Rest destructuring \<open>const { k1, ..., kn, ...rest } = obj\<close>.\<close>

definition omit_keys :: "string list \<Rightarrow> props \<Rightarrow> props" where
  "omit_keys ks p = filter (\<lambda>(k, v). k \<notin> set ks) p"

text \<open>Truthiness, as tested by \<open>?:\<close>, \<open>&&\<close>, \<open>||\<close> and \<open>!\<close>.\<close>

fun truthy :: "jsval \<Rightarrow> bool" where
  "truthy JUndefined = False"
| "truthy JNull = False"
| "truthy (JBool b) = b"
| "truthy (JNum n) = (n \<noteq> 0)"
| "truthy (JStr s) = (s \<noteq> [])"
| "truthy (JObj kvs) = True"

definition js_or :: "jsval \<Rightarrow> jsval \<Rightarrow> jsval" where
  "js_or a b = (if truthy a then a else b)"

text \<open>Decimal digits of a natural number, and \<open>String(n)\<close> for an integer.\<close>

fun digits_of :: "nat \<Rightarrow> string" where
  "digits_of n =
     (if n < 10 then [''0123456789'' ! n]
      else digits_of (n div 10) @ [''0123456789'' ! (n mod 10)])"

definition show_int :: "int \<Rightarrow> string" where
  "show_int i = (if i < 0 then CHR ''-'' # digits_of (nat (- i)) else digits_of (nat i))"

text \<open>\<open>String(value)\<close>, which is also what a template literal applies to \<open>${value}\<close>.\<close>

fun to_String :: "jsval \<Rightarrow> string" where
  "to_String JUndefined = ''undefined''"
| "to_String JNull = ''null''"
| "to_String (JBool b) = (if b then ''true'' else ''false'')"
| "to_String (JNum n) = show_int n"
| "to_String (JStr s) = s"
| "to_String (JObj kvs) = ''[object Object]''"

text \<open>\<open>Array.prototype.join(sep)\<close> on an array of strings.\<close>

fun join_with :: "string \<Rightarrow> string list \<Rightarrow> string" where
  "join_with sep [] = []"
| "join_with sep [x] = x"
| "join_with sep (x # y # ys) = x @ sep @ join_with sep (y # ys)"

section \<open>The attribute serializer (src/ui/utils/utils.ts)\<close>

text \<open>
  \<^verbatim>\<open>Object.entries(attributes)
    .filter(([, value]) => value !== undefined && value !== null)
    .map(([key, value]) => {
      if (typeof value === 'boolean') { return value ? key : ''; }
      return `${key}="${String(value)}"`;
    })
    .filter(Boolean)
    .join(' ')\<close>
\<close>

fun attribute_entry :: "string \<times> jsval \<Rightarrow> string" where
  "attribute_entry (key, JBool b) = (if b then key else [])"
| "attribute_entry (key, v) = key @ ''=\"'' @ to_String v @ ''\"''"

definition createAttributesStringified :: "props \<Rightarrow> string" where
  "createAttributesStringified attributes =
     join_with '' ''
       (filter (\<lambda>s. s \<noteq> [])
         (map attribute_entry
           (filter (\<lambda>(key, v). v \<noteq> JUndefined \<and> v \<noteq> JNull) attributes)))"

text \<open>
  The serializer as the specification words it: an entry emits nothing when its value is
  \<open>null\<close>, \<open>undefined\<close> or \<open>false\<close>, its bare name when the value is \<open>true\<close>, and
  \<open>name="value"\<close> otherwise; the emitted items are joined by one space.
\<close>

fun spec_emit :: "string \<times> jsval \<Rightarrow> string list" where
  "spec_emit (key, JUndefined) = []"
| "spec_emit (key, JNull) = []"
| "spec_emit (key, JBool b) = (if b then [key] else [])"
| "spec_emit (key, v) = [key @ ''=\"'' @ to_String v @ ''\"'']"

definition spec_serialize :: "props \<Rightarrow> string" where
  "spec_serialize attributes = join_with '' '' (concat (map spec_emit attributes))"

section \<open>Class composition: clsx, cva and cn\<close>

text \<open>
  \<open>clsx\<close> (package clsx) and \<open>cva\<close> (package class-variance-authority) are imported
  dependencies; the definitions below follow the code the packages publish.

  \<^verbatim>\<open>function toVal(mix) {
    if (typeof mix === 'string' || typeof mix === 'number') str += mix;
    else if (typeof mix === 'object') {
      if (Array.isArray(mix)) { ...each truthy element's toVal, joined by ' '... }
      else { for (k in mix) if (mix[k]) { str && (str += ' '); str += k; } } }
    return str; }
  function clsx() {
    for (; i < arguments.length; i++)
      if (tmp = arguments[i]) if (x = toVal(tmp)) { str && (str += ' '); str += x }
    return str; }\<close>

  An array argument contributes the same items as its elements given one by one, so the
  arguments are modelled as one flat list.
\<close>

fun toVal :: "jsval \<Rightarrow> string" where
  "toVal (JStr s) = s"
| "toVal (JNum n) = show_int n"
| "toVal (JObj kvs) = join_with '' '' (map fst (filter (\<lambda>(k, v). truthy v) kvs))"
| "toVal v = []"

definition clsx :: "jsval list \<Rightarrow> string" where
  "clsx inputs = join_with '' '' (filter (\<lambda>s. s \<noteq> []) (map toVal (filter truthy inputs)))"

text \<open>
  \<^verbatim>\<open>const falsyToString = (value) =>
    typeof value === "boolean" ? `${value}` : value === 0 ? "0" : value;
  const cva = (base, config) => (props) => {
    const { variants, defaultVariants } = config;
    const getVariantClassNames = Object.keys(variants).map((variant) => {
      const variantProp = props?.[variant];
      const defaultVariantProp = defaultVariants?.[variant];
      if (variantProp === null) return null;
      const variantKey = falsyToString(variantProp) || falsyToString(defaultVariantProp);
      return variants[variant][variantKey];
    });
    ...
    return cx(base, getVariantClassNames, getCompoundVariantClassNames,
              props?.class, props?.className); };\<close>

  No table of this repository declares compound variants, so that argument is
  \<open>undefined\<close>. A variant table is the list of its axes in declaration order, each with
  the list of its values and their class fragments.
\<close>

type_synonym variant_table = "(string \<times> (string \<times> string) list) list"

fun falsyToString :: "jsval \<Rightarrow> jsval" where
  "falsyToString (JBool b) = JStr (if b then ''true'' else ''false'')"
| "falsyToString (JNum n) = (if n = 0 then JStr ''0'' else JNum n)"
| "falsyToString v = v"

definition variant_class :: "(string \<times> string) list \<Rightarrow> jsval \<Rightarrow> jsval \<Rightarrow> jsval" where
  "variant_class values defaultVariantProp variantProp =
     (if variantProp = JNull then JNull
      else case map_of values
                  (to_String (js_or (falsyToString variantProp)
                                    (falsyToString defaultVariantProp))) of
             None \<Rightarrow> JUndefined
           | Some fragment \<Rightarrow> JStr fragment)"

definition cva :: "string \<Rightarrow> variant_table \<Rightarrow> props \<Rightarrow> props \<Rightarrow> string" where
  "cva base variants defaultVariants p =
     clsx ([JStr base]
           @ map (\<lambda>(variant, values).
                    variant_class values (get_prop defaultVariants variant) (get_prop p variant))
                 variants
           @ [JUndefined, get_prop p ''class'', get_prop p ''className''])"

text \<open>
  \<^verbatim>\<open>export function cn(...inputs) { return twMerge(clsx(inputs)); }\<close>
  \<open>twMerge\<close> belongs to the package tailwind-merge and is driven by that package's table
  of Tailwind class groups. It is a parameter of \<open>cn\<close> and of every factory that calls
  \<open>cn\<close>: what is proved of them holds for any function in its place.
\<close>

definition cn :: "(string \<Rightarrow> string) \<Rightarrow> jsval list \<Rightarrow> string" where
  "cn twMerge inputs = twMerge (clsx inputs)"

section \<open>String operations used by the factories\<close>

text \<open>\<open>trim()\<close>, \<open>split(/\s+/)\<close>, \<open>charAt(0)\<close> and \<open>toUpperCase()\<close> on ASCII text.\<close>

definition is_space :: "char \<Rightarrow> bool" where
  "is_space c = (c \<in> set [CHR 0x09, CHR 0x0A, CHR 0x0B, CHR 0x0C, CHR 0x0D, CHR '' ''])"

definition trim :: "string \<Rightarrow> string" where
  "trim s = rev (dropWhile is_space (rev (dropWhile is_space s)))"

function split_ws :: "string \<Rightarrow> string list" where
  "split_ws [] = [[]]"
| "split_ws (c # cs) =
     (if is_space c then [] # split_ws (dropWhile is_space cs)
      else case split_ws cs of
             [] \<Rightarrow> [[c]]
           | t # ts \<Rightarrow> (c # t) # ts)"
  by pat_completeness auto
termination
  by (relation "measure length") (auto simp: length_dropWhile_le le_imp_less_Suc)

definition charAt0 :: "string \<Rightarrow> string" where
  "charAt0 s = take 1 s"

definition upper_char :: "char \<Rightarrow> char" where
  "upper_char c =
     (case map_of (zip ''abcdefghijklmnopqrstuvwxyz'' ''ABCDEFGHIJKLMNOPQRSTUVWXYZ'') c of
        None \<Rightarrow> c
      | Some u \<Rightarrow> u)"

definition toUpperCase :: "string \<Rightarrow> string" where
  "toUpperCase s = map upper_char s"

section \<open>Avatar (src/ui/components/avatar.ts)\<close>

definition avatarVariants :: "props \<Rightarrow> string" where
  "avatarVariants =
     cva ''relative flex shrink-0 overflow-hidden rounded-full''
       [(''variant'',
           [(''default'', ''bg-muted''),
            (''primary'', ''bg-primary text-primary-foreground''),
            (''secondary'', ''bg-secondary text-secondary-foreground''),
            (''accent'', ''bg-accent text-accent-foreground''),
            (''destructive'', ''bg-destructive text-destructive-foreground'')]),
        (''size'',
           [(''sm'', ''size-8 text-xs''),
            (''md'', ''size-10 text-sm''),
            (''lg'', ''size-12 text-base''),
            (''xl'', ''size-16 text-lg'')])]
       [(''variant'', JStr ''default''), (''size'', JStr ''md'')]"

definition getAvatarAttributes :: "props \<Rightarrow> props" where
  "getAvatarAttributes p =
     omit_keys [''variant'', ''size'', ''className'', ''name'', ''src'', ''alt''] p"

text \<open>
  \<open>getInitials\<close> calls \<open>name.trim()\<close>: a truthy value that is not a string has no such
  method, and the call raises a TypeError.
\<close>

fun getInitials :: "jsval \<Rightarrow> error + string" where
  "getInitials (JStr name) =
     (if name = [] then Inr []
      else let parts = split_ws (trim name) in
        if length parts = 1 then Inr (toUpperCase (charAt0 (parts ! 0)))
        else Inr (toUpperCase (charAt0 (parts ! 0) @ charAt0 (parts ! (length parts - 1)))))"
| "getInitials v = (if truthy v then Inl TypeError else Inr [])"

text \<open>
  The initials as the specification words them: the whitespace-separated tokens of the
  name, then the upper-cased first letter of the only token, or of the first and the last.
\<close>

fun tokens_acc :: "string \<Rightarrow> string \<Rightarrow> string list" where
  "tokens_acc cur [] = (if cur = [] then [] else [cur])"
| "tokens_acc cur (c # cs) =
     (if is_space c then (if cur = [] then tokens_acc [] cs else cur # tokens_acc [] cs)
      else tokens_acc (cur @ [c]) cs)"

definition spec_tokens :: "string \<Rightarrow> string list" where
  "spec_tokens s = tokens_acc [] s"

definition spec_initials :: "string \<Rightarrow> string" where
  "spec_initials name =
     (case spec_tokens name of
        [] \<Rightarrow> []
      | [t] \<Rightarrow> toUpperCase (take 1 t)
      | t # ts \<Rightarrow> toUpperCase (take 1 t @ take 1 (last ts)))"

definition createAvatar :: "(string \<Rightarrow> string) \<Rightarrow> props \<Rightarrow> error + string" where
  "createAvatar twMerge p =
     (let variant = get_prop p ''variant'';
          size = get_prop p ''size'';
          className = get_prop p ''className'';
          name = get_prop p ''name'';
          src = get_prop p ''src'';
          alt = get_prop p ''alt'';
          rest = omit_keys [''variant'', ''size'', ''className'', ''name'', ''src'', ''alt''] p;
          classes = cn twMerge
                      [JStr (avatarVariants [(''variant'', variant), (''size'', size)]),
                       className];
          attributes = getAvatarAttributes rest;
          attributesStringified = createAttributesStringified attributes
      in case (if truthy name then getInitials name else Inr []) of
           Inl e \<Rightarrow> Inl e
         | Inr initials \<Rightarrow>
             (let displayAlt = js_or alt (js_or name (JStr ''Avatar''))
              in if truthy src
                 then Inr (''<img data-slot=\"avatar\" class=\"'' @ classes @ ''\" src=\"''
                           @ to_String src @ ''\" alt=\"'' @ to_String displayAlt @ ''\" ''
                           @ attributesStringified @ '' />'')
                 else Inr (''<div data-slot=\"avatar\" class=\"'' @ classes
                           @ '' flex items-center justify-center font-semibold\" ''
                           @ attributesStringified @ ''>'' @ initials @ ''</div>'')))"

section \<open>Input and badge\<close>

definition inputVariants :: "props \<Rightarrow> string" where
  "inputVariants =
     cva ''w-full appearance-none bg-white text-foreground placeholder:text-muted-foreground border border-gray-300 rounded-md ring-offset-white transition-colors focus-visible:outline-none focus-visible:ring-2 focus-visible:ring-primary focus-visible:ring-offset-2 disabled:cursor-not-allowed disabled:opacity-50''
       [(''variant'',
           [(''default'', ''''),
            (''subtle'', ''bg-gray-100''),
            (''ghost'', ''bg-transparent border-transparent focus-visible:border-gray-300'')]),
        (''size'',
           [(''lg'', ''h-10 px-4 text-sm''),
            (''md'', ''h-9 px-3 text-sm''),
            (''sm'', ''h-8 px-2.5 text-xs'')]),
        (''state'',
           [(''normal'', ''''),
            (''error'', ''border-red-500 focus-visible:ring-red-500''),
            (''success'', ''border-green-500 focus-visible:ring-green-500'')])]
       [(''variant'', JStr ''default''), (''size'', JStr ''md''), (''state'', JStr ''normal'')]"

text \<open>The spread \<open>...(cond && { key: v })\<close> inside an object literal.\<close>

definition spread_if :: "jsval \<Rightarrow> string \<Rightarrow> jsval \<Rightarrow> props \<Rightarrow> props" where
  "spread_if cond key v obj = (if truthy cond then assign obj key v else obj)"

definition getInputAttributes :: "props \<Rightarrow> props" where
  "getInputAttributes p =
     (let onInput = get_prop p ''onInput'';
          onChange = get_prop p ''onChange'';
          onBlur = get_prop p ''onBlur'';
          onFocus = get_prop p ''onFocus'';
          attributes = omit_keys [''variant'', ''size'', ''state'', ''className'',
                                  ''onInput'', ''onChange'', ''onBlur'', ''onFocus''] p
      in spread_if (get_prop p ''autoFocus'') ''autofocus'' (JBool True)
          (spread_if (get_prop p ''required'') ''required'' (JBool True)
            (spread_if (get_prop p ''readOnly'') ''readonly'' (JBool True)
              (spread_if (get_prop p ''disabled'') ''disabled'' (JBool True)
                (spread_if onFocus ''onfocus'' onFocus
                  (spread_if onBlur ''onblur'' onBlur
                    (spread_if onChange ''onchange'' onChange
                      (spread_if onInput ''oninput'' onInput attributes))))))))"

definition createInput :: "(string \<Rightarrow> string) \<Rightarrow> props \<Rightarrow> string" where
  "createInput twMerge p =
     (let variant = get_prop p ''variant'';
          size = get_prop p ''size'';
          state = get_prop p ''state'';
          className = get_prop p ''className'';
          rest = omit_keys [''variant'', ''size'', ''state'', ''className''] p;
          classes = cn twMerge
                      [JStr (inputVariants
                               [(''variant'', variant), (''size'', size), (''state'', state)]),
                       className];
          attributes = getInputAttributes rest;
          attributesStringified = createAttributesStringified attributes
      in ''<input class=\"'' @ classes @ ''\" '' @ attributesStringified @ '' />'')"

definition badgeVariants :: "props \<Rightarrow> string" where
  "badgeVariants =
     cva ''inline-flex items-center justify-center rounded-full border px-2 py-0.5 text-xs font-medium w-fit whitespace-nowrap shrink-0 [&>svg]:size-3 gap-1 [&>svg]:pointer-events-none focus-visible:border-ring focus-visible:ring-ring/50 focus-visible:ring-[3px] aria-invalid:ring-destructive/20 dark:aria-invalid:ring-destructive/40 aria-invalid:border-destructive transition-[color,box-shadow] overflow-hidden''
       [(''variant'',
           [(''default'', ''border-transparent bg-primary text-primary-foreground [a&]:hover:bg-primary/90''),
            (''secondary'', ''border-transparent bg-secondary text-secondary-foreground [a&]:hover:bg-secondary/90''),
            (''destructive'', ''border-transparent bg-destructive text-white [a&]:hover:bg-destructive/90 focus-visible:ring-destructive/20 dark:focus-visible:ring-destructive/40 dark:bg-destructive/60''),
            (''outline'', ''text-foreground [a&]:hover:bg-accent [a&]:hover:text-accent-foreground'')])]
       [(''variant'', JStr ''default'')]"

text \<open>\<open>children ?? ''\<close> interpolated into a template literal.\<close>

definition children_content :: "jsval \<Rightarrow> string" where
  "children_content children =
     (if children = JUndefined \<or> children = JNull then [] else to_String children)"

definition createBadge :: "(string \<Rightarrow> string) \<Rightarrow> props \<Rightarrow> string" where
  "createBadge twMerge p =
     (let variant = get_prop p ''variant'';
          className = get_prop p ''className'';
          children = get_prop p ''children'';
          rest = omit_keys [''variant'', ''className'', ''children''] p;
          classes = cn twMerge [JStr (badgeVariants [(''variant'', variant)]), className];
          attributesStringified = createAttributesStringified rest;
          content = children_content children
      in ''<span class=\"'' @ classes @ ''\" '' @ attributesStringified @ ''>'' @ content
         @ ''</span>'')"

section \<open>Card and its sub-regions\<close>

definition cardVariants :: "props \<Rightarrow> string" where
  "cardVariants =
     cva ''bg-card text-card-foreground flex flex-col gap-6 rounded-xl border shadow-sm''
       [(''variant'',
           [(''default'', ''border-gray-200''),
            (''gradient'', ''bg-gradient-to-br from-white dark:from-gray-900 to-gray-50 dark:to-gray-800 border-gray-200''),
            (''outlined'', ''border-2 border-gray-300'')]),
        (''padding'',
           [(''none'', ''''),
            (''sm'', ''py-4''),
            (''md'', ''py-6''),
            (''lg'', ''py-8'')])]
       [(''variant'', JStr ''default''), (''padding'', JStr ''md'')]"

definition getCardAttributes :: "props \<Rightarrow> props" where
  "getCardAttributes p = omit_keys [''variant'', ''padding'', ''className'', ''children''] p"

definition createCard :: "(string \<Rightarrow> string) \<Rightarrow> props \<Rightarrow> string" where
  "createCard twMerge p =
     (let variant = get_prop p ''variant'';
          padding = get_prop p ''padding'';
          className = get_prop p ''className'';
          children = get_prop p ''children'';
          rest = omit_keys [''variant'', ''padding'', ''className'', ''children''] p;
          classes = cn twMerge
                      [JStr (cardVariants [(''variant'', variant), (''padding'', padding)]),
                       className];
          attributes = getCardAttributes rest;
          attributesStringified = createAttributesStringified attributes;
          content = children_content children
      in ''<div data-slot=\"card\" class=\"'' @ classes @ ''\" '' @ attributesStringified
         @ ''>'' @ content @ ''</div>'')"

text \<open>
  The six sub-region factories have one shape: they differ in the attribute-getter they
  call (each strips \<open>className\<close> and \<open>children\<close>), in the fixed class string and in the
  \<open>data-slot\<close> name.
\<close>

definition getCardHeaderAttributes :: "props \<Rightarrow> props" where
  "getCardHeaderAttributes p = omit_keys [''className'', ''children''] p"

definition getCardTitleAttributes :: "props \<Rightarrow> props" where
  "getCardTitleAttributes p = omit_keys [''className'', ''children''] p"

definition getCardDescriptionAttributes :: "props \<Rightarrow> props" where
  "getCardDescriptionAttributes p = omit_keys [''className'', ''children''] p"

definition getCardActionAttributes :: "props \<Rightarrow> props" where
  "getCardActionAttributes p = omit_keys [''className'', ''children''] p"

definition getCardContentAttributes :: "props \<Rightarrow> props" where
  "getCardContentAttributes p = omit_keys [''className'', ''children''] p"

definition getCardFooterAttributes :: "props \<Rightarrow> props" where
  "getCardFooterAttributes p = omit_keys [''className'', ''children''] p"

definition createCardHeader :: "(string \<Rightarrow> string) \<Rightarrow> props \<Rightarrow> string" where
  "createCardHeader twMerge p =
     (let className = get_prop p ''className'';
          children = get_prop p ''children'';
          rest = omit_keys [''className'', ''children''] p;
          classes = cn twMerge
                      [JStr ''@container/card-header grid auto-rows-min grid-rows-[auto_auto] items-start gap-2 px-6 has-data-[slot=card-action]:grid-cols-[1fr_auto] [.border-b]:pb-6'',
                       className];
          attributes = getCardHeaderAttributes rest;
          attributesStringified = createAttributesStringified attributes;
          content = children_content children
      in ''<div data-slot=\"card-header\" class=\"'' @ classes @ ''\" ''
         @ attributesStringified @ ''>'' @ content @ ''</div>'')"

definition createCardTitle :: "(string \<Rightarrow> string) \<Rightarrow> props \<Rightarrow> string" where
  "createCardTitle twMerge p =
     (let className = get_prop p ''className'';
          children = get_prop p ''children'';
          rest = omit_keys [''className'', ''children''] p;
          classes = cn twMerge [JStr ''leading-none font-semibold'', className];
          attributes = getCardTitleAttributes rest;
          attributesStringified = createAttributesStringified attributes;
          content = children_content children
      in ''<div data-slot=\"card-title\" class=\"'' @ classes @ ''\" ''
         @ attributesStringified @ ''>'' @ content @ ''</div>'')"

definition createCardDescription :: "(string \<Rightarrow> string) \<Rightarrow> props \<Rightarrow> string" where
  "createCardDescription twMerge p =
     (let className = get_prop p ''className'';
          children = get_prop p ''children'';
          rest = omit_keys [''className'', ''children''] p;
          classes = cn twMerge [JStr ''text-muted-foreground text-sm'', className];
          attributes = getCardDescriptionAttributes rest;
          attributesStringified = createAttributesStringified attributes;
          content = children_content children
      in ''<div data-slot=\"card-description\" class=\"'' @ classes @ ''\" ''
         @ attributesStringified @ ''>'' @ content @ ''</div>'')"

definition createCardAction :: "(string \<Rightarrow> string) \<Rightarrow> props \<Rightarrow> string" where
  "createCardAction twMerge p =
     (let className = get_prop p ''className'';
          children = get_prop p ''children'';
          rest = omit_keys [''className'', ''children''] p;
          classes = cn twMerge
                      [JStr ''col-start-2 row-span-2 row-start-1 self-start justify-self-end'',
                       className];
          attributes = getCardActionAttributes rest;
          attributesStringified = createAttributesStringified attributes;
          content = children_content children
      in ''<div data-slot=\"card-action\" class=\"'' @ classes @ ''\" ''
         @ attributesStringified @ ''>'' @ content @ ''</div>'')"

definition createCardContent :: "(string \<Rightarrow> string) \<Rightarrow> props \<Rightarrow> string" where
  "createCardContent twMerge p =
     (let className = get_prop p ''className'';
          children = get_prop p ''children'';
          rest = omit_keys [''className'', ''children''] p;
          classes = cn twMerge [JStr ''px-6'', className];
          attributes = getCardContentAttributes rest;
          attributesStringified = createAttributesStringified attributes;
          content = children_content children
      in ''<div data-slot=\"card-content\" class=\"'' @ classes @ ''\" ''
         @ attributesStringified @ ''>'' @ content @ ''</div>'')"

definition createCardFooter :: "(string \<Rightarrow> string) \<Rightarrow> props \<Rightarrow> string" where
  "createCardFooter twMerge p =
     (let className = get_prop p ''className'';
          children = get_prop p ''children'';
          rest = omit_keys [''className'', ''children''] p;
          classes = cn twMerge [JStr ''flex items-center px-6 [.border-t]:pt-6'', className];
          attributes = getCardFooterAttributes rest;
          attributesStringified = createAttributesStringified attributes;
          content = children_content children
      in ''<div data-slot=\"card-footer\" class=\"'' @ classes @ ''\" ''
         @ attributesStringified @ ''>'' @ content @ ''</div>'')"

section \<open>KPI\<close>

definition kpiVariants :: "props \<Rightarrow> string" where
  "kpiVariants =
     cva ''rounded-lg border bg-card text-card-foreground shadow-sm transition-all hover:shadow-md''
       [(''variant'',
           [(''default'', ''border-gray-200''),
            (''gradient'', ''bg-gradient-to-br from-white to-gray-50 border-gray-200''),
            (''outlined'', ''border-2 border-gray-300'')]),
        (''size'',
           [(''default'', ''p-6''),
            (''sm'', ''p-4''),
            (''lg'', ''p-8'')])]
       [(''variant'', JStr ''default''), (''size'', JStr ''default'')]"

definition getKPIAttributes :: "props \<Rightarrow> props" where
  "getKPIAttributes p =
     omit_keys [''variant'', ''size'', ''className'', ''title'', ''value'', ''description'',
                ''iconPath'', ''iconColor'', ''change'', ''trend'', ''changeDescription''] p"

text \<open>
  A fixed lookup table \<open>table[key || dflt] || table.dflt\<close>. The tables are object
  literals; the model reads their own properties, so a key that names a member of
  \<open>Object.prototype\<close> (such as \<open>constructor\<close>) is outside it.
\<close>

definition colorMap :: "(string \<times> string) list" where
  "colorMap =
     [(''blue'', ''bg-blue-100 text-blue-600''),
      (''purple'', ''bg-purple-100 text-purple-600''),
      (''cyan'', ''bg-cyan-100 text-cyan-600''),
      (''green'', ''bg-green-100 text-green-600''),
      (''yellow'', ''bg-yellow-100 text-yellow-600''),
      (''red'', ''bg-red-100 text-red-600''),
      (''gray'', ''bg-gray-100 text-gray-600'')]"

definition table_get :: "(string \<times> string) list \<Rightarrow> jsval \<Rightarrow> jsval" where
  "table_get table key =
     (case map_of table (to_String key) of None \<Rightarrow> JUndefined | Some c \<Rightarrow> JStr c)"

definition getIconColorClasses :: "jsval \<Rightarrow> jsval" where
  "getIconColorClasses color =
     js_or (table_get colorMap (js_or color (JStr ''blue''))) (table_get colorMap (JStr ''blue''))"

definition trendMap :: "(string \<times> string) list" where
  "trendMap =
     [(''up'', ''text-green-600''),
      (''down'', ''text-red-600''),
      (''neutral'', ''text-gray-600'')]"

definition getTrendColorClasses :: "jsval \<Rightarrow> jsval" where
  "getTrendColorClasses trend =
     js_or (table_get trendMap (js_or trend (JStr ''neutral'')))
           (table_get trendMap (JStr ''neutral''))"

definition getTrendIcon :: "jsval \<Rightarrow> string" where
  "getTrendIcon trend =
     (if trend = JStr ''up'' then
        ''<svg class=\"w-3 h-3\" fill=\"none\" stroke=\"currentColor\" viewBox=\"0 0 24 24\">\<newline>'' @
        ''      <path stroke-linecap=\"round\" stroke-linejoin=\"round\" stroke-width=\"2\" d=\"M13 7h8m0 0v8m0-8l-8 8-4-4-6 6\" />\<newline>'' @
        ''    </svg>''
      else if trend = JStr ''down'' then
        ''<svg class=\"w-3 h-3\" fill=\"none\" stroke=\"currentColor\" viewBox=\"0 0 24 24\">\<newline>'' @
        ''      <path stroke-linecap=\"round\" stroke-linejoin=\"round\" stroke-width=\"2\" d=\"M13 17h8m0 0V9m0 8l-8-8-4 4-6-6\" />\<newline>'' @
        ''    </svg>''
      else [])"

definition kpi_icon_html :: "string \<Rightarrow> string \<Rightarrow> string" where
  "kpi_icon_html iconClasses iconPath =
           ''<div class=\"flex h-10 w-10 shrink-0 items-center justify-center rounded-lg '' @
           iconClasses @
           ''\">\<newline>'' @
           ''        <svg class=\"w-5 h-5\" fill=\"none\" stroke=\"currentColor\" viewBox=\"0 0 24 24\">\<newline>'' @
           ''          <path stroke-linecap=\"round\" stroke-linejoin=\"round\" stroke-width=\"2\" d=\"'' @
           iconPath @
           ''\" />\<newline>'' @
           ''        </svg>\<newline>'' @
           ''      </div>''"

definition kpi_change_trend_html :: "string \<Rightarrow> string \<Rightarrow> string \<Rightarrow> string \<Rightarrow> string" where
  "kpi_change_trend_html trendClasses trendIcon change changeDescriptionHtml =
     ''<div class=\"mt-2 flex items-center gap-1 '' @
     trendClasses @
     ''\">\<newline>'' @
     ''          '' @
     trendIcon @
     ''\<newline>'' @
     ''          <span class=\"text-sm font-medium\">'' @
     change @
     ''</span>\<newline>'' @
     ''          '' @
     changeDescriptionHtml @
     ''\<newline>'' @
     ''        </div>''"

definition kpi_change_plain_html :: "string \<Rightarrow> string \<Rightarrow> string" where
  "kpi_change_plain_html change changeDescriptionHtml =
     ''<div class=\"mt-2\">\<newline>'' @
     ''            <span class=\"text-sm font-medium text-foreground\">'' @
     change @
     ''</span>\<newline>'' @
     ''            '' @
     changeDescriptionHtml @
     ''\<newline>'' @
     ''          </div>''"

definition kpi_template ::
  "string \<Rightarrow> string \<Rightarrow> string \<Rightarrow> string \<Rightarrow> string \<Rightarrow> string \<Rightarrow> string \<Rightarrow> string" where
  "kpi_template classes attributesStringified titleHtml valueHtml descriptionHtml changeHtml
       iconSvg =
     ''\<newline>'' @
     ''    <div class=\"'' @
     classes @
     ''\" '' @
     attributesStringified @
     ''>\<newline>'' @
     ''      <div class=\"flex items-start justify-between\">\<newline>'' @
     ''        <div class=\"flex-1\">\<newline>'' @
     ''          '' @
     titleHtml @
     ''\<newline>'' @
     ''          <div class=\"flex items-baseline gap-2\">\<newline>'' @
     ''            '' @
     valueHtml @
     ''\<newline>'' @
     ''          </div>\<newline>'' @
     ''          '' @
     descriptionHtml @
     ''\<newline>'' @
     ''          '' @
     changeHtml @
     ''\<newline>'' @
     ''        </div>\<newline>'' @
     ''        '' @
     iconSvg @
     ''\<newline>'' @
     ''      </div>\<newline>'' @
     ''    </div>\<newline>'' @
     ''  ''"

definition createKPI :: "(string \<Rightarrow> string) \<Rightarrow> props \<Rightarrow> string" where
  "createKPI twMerge p =
     (let variant = get_prop p ''variant'';
          size = get_prop p ''size'';
          className = get_prop p ''className'';
          rest = omit_keys [''variant'', ''size'', ''className''] p;
          classes = cn twMerge
                      [JStr (kpiVariants [(''variant'', variant), (''size'', size)]), className];
          attributes = getKPIAttributes rest;
          attributesStringified = createAttributesStringified attributes;
          iconClasses = getIconColorClasses (get_prop p ''iconColor'');
          trendClasses = getTrendColorClasses (get_prop p ''trend'');
          trendIcon = getTrendIcon (get_prop p ''trend'');
          iconSvg = (if truthy (get_prop p ''iconPath'')
                     then kpi_icon_html (to_String iconClasses) (to_String (get_prop p ''iconPath''))
                     else []);
          titleHtml = (if truthy (get_prop p ''title'')
                       then ''<p class=\"text-sm font-medium text-muted-foreground mb-1\">''
                            @ to_String (get_prop p ''title'') @ ''</p>''
                       else []);
          valueHtml = (if get_prop p ''value'' \<noteq> JUndefined
                       then ''<h3 class=\"text-2xl font-bold text-foreground\">''
                            @ to_String (get_prop p ''value'') @ ''</h3>''
                       else []);
          descriptionHtml = (if truthy (get_prop p ''description'')
                             then ''<p class=\"text-xs text-muted-foreground mt-1\">''
                                  @ to_String (get_prop p ''description'') @ ''</p>''
                             else []);
          changeDescriptionHtml =
            (if truthy (get_prop p ''changeDescription'')
             then ''<span class=\"text-xs text-muted-foreground ml-1\">''
                  @ to_String (get_prop p ''changeDescription'') @ ''</span>''
             else []);
          changeHtml =
            (if truthy (get_prop p ''change'') \<and> truthy (get_prop p ''trend'')
             then kpi_change_trend_html (to_String trendClasses) trendIcon
                    (to_String (get_prop p ''change'')) changeDescriptionHtml
             else if truthy (get_prop p ''change'')
             then kpi_change_plain_html (to_String (get_prop p ''change'')) changeDescriptionHtml
             else [])
      in trim (kpi_template classes attributesStringified titleHtml valueHtml descriptionHtml
                 changeHtml iconSvg))"

section \<open>Activity item\<close>

definition activityItemVariants :: "props \<Rightarrow> string" where
  "activityItemVariants =
     cva ''flex items-center justify-between py-4 hover:bg-gray-50 px-4 rounded-lg transition-colors''
       [(''hasBorder'',
           [(''true'', ''border-b border-gray-100''),
            (''false'', '''')])]
       [(''hasBorder'', JBool True)]"

definition getActivityItemClasses :: "props \<Rightarrow> string" where
  "getActivityItemClasses p =
     (let hasBorder = get_prop p ''hasBorder'';
          className = get_prop p ''className''
      in clsx [JStr (activityItemVariants [(''hasBorder'', hasBorder)]), className])"

definition statusColorClasses :: "(string \<times> string) list" where
  "statusColorClasses =
     [(''blue'', ''bg-blue-600''),
      (''green'', ''bg-green-600''),
      (''yellow'', ''bg-yellow-600''),
      (''red'', ''bg-red-600''),
      (''purple'', ''bg-purple-600'')]"

definition activity_item_template ::
  "string \<Rightarrow> string \<Rightarrow> string \<Rightarrow> string \<Rightarrow> string \<Rightarrow> string \<Rightarrow> string" where
  "activity_item_template classes attributes statusColor title descriptionHtml timeAgo =
     ''\<newline>'' @
     ''    <div class=\"'' @
     classes @
     ''\" '' @
     attributes @
     ''>\<newline>'' @
     ''      <div class=\"flex items-center gap-4\">\<newline>'' @
     ''        <div class=\"relative\">\<newline>'' @
     ''          <div class=\"w-3 h-3 '' @
     statusColor @
     '' rounded-full status-dot\"></div>\<newline>'' @
     ''        </div>\<newline>'' @
     ''        <div>\<newline>'' @
     ''          <p class=\"text-sm font-medium text-gray-900\">'' @
     title @
     ''</p>\<newline>'' @
     ''          '' @
     descriptionHtml @
     ''\<newline>'' @
     ''        </div>\<newline>'' @
     ''      </div>\<newline>'' @
     ''      <span class=\"text-xs text-gray-500 font-medium\">'' @
     timeAgo @
     ''</span>\<newline>'' @
     ''    </div>\<newline>'' @
     ''  ''"

text \<open>
  \<^verbatim>\<open>props['data-testid'] ? `data-testid="${props['data-testid']}"` : ''\<close>, the
  attribute text of the activity item and of the user-info block.
\<close>

definition data_testid_attribute :: "props \<Rightarrow> string" where
  "data_testid_attribute p =
     (if truthy (get_prop p ''data-testid'')
      then ''data-testid=\"'' @ to_String (get_prop p ''data-testid'') @ ''\"''
      else [])"

definition activity_status_color :: "props \<Rightarrow> jsval" where
  "activity_status_color p =
     (if truthy (get_prop p ''statusColor'')
      then table_get statusColorClasses (get_prop p ''statusColor'')
      else table_get statusColorClasses (JStr ''blue''))"

definition activity_description_html :: "props \<Rightarrow> string" where
  "activity_description_html p =
     (if truthy (get_prop p ''description'')
      then ''<p class=\"text-xs text-gray-500 mt-1\">'' @ to_String (get_prop p ''description'')
           @ ''</p>''
      else [])"

definition createActivityItem :: "props \<Rightarrow> string" where
  "createActivityItem p =
     (let classes = getActivityItemClasses p;
          attributes = data_testid_attribute p;
          statusColor = activity_status_color p;
          descriptionHtml = activity_description_html p
      in activity_item_template classes attributes (to_String statusColor)
           (to_String (get_prop p ''title'')) descriptionHtml
           (to_String (get_prop p ''timeAgo'')))"

section \<open>User-info block\<close>

text \<open>
  Member access \<open>value.key\<close>: on \<open>undefined\<close> and \<open>null\<close> it raises a TypeError, on an
  object it reads the property, on a boolean, number or string it reads a property of the
  wrapper, which has none of the names read here.
\<close>

fun member :: "jsval \<Rightarrow> string \<Rightarrow> error + jsval" where
  "member JUndefined key = Inl TypeError"
| "member JNull key = Inl TypeError"
| "member (JObj kvs) key = Inr (get_prop kvs key)"
| "member v key = Inr JUndefined"

definition user_info_template :: "string \<Rightarrow> string \<Rightarrow> string \<Rightarrow> string \<Rightarrow> string" where
  "user_info_template attributes name email ident =
     ''\<newline>'' @
     ''    <div class=\"space-y-4\" '' @
     attributes @
     ''>\<newline>'' @
     ''      <div class=\"p-4 bg-gray-50 rounded-lg border border-gray-100\">\<newline>'' @
     ''        <label class=\"text-xs font-semibold text-gray-500 uppercase tracking-wide\">Full Name</label>\<newline>'' @
     ''        <p class=\"text-gray-900 mt-1 font-medium\">'' @
     name @
     ''</p>\<newline>'' @
     ''      </div>\<newline>'' @
     ''      <div class=\"p-4 bg-gray-50 rounded-lg border border-gray-100\">\<newline>'' @
     ''        <label class=\"text-xs font-semibold text-gray-500 uppercase tracking-wide\">Email Address</label>\<newline>'' @
     ''        <p class=\"text-gray-900 mt-1 font-medium\">'' @
     email @
     ''</p>\<newline>'' @
     ''      </div>\<newline>'' @
     ''      <div class=\"p-4 bg-gray-50 rounded-lg border border-gray-100\">\<newline>'' @
     ''        <label class=\"text-xs font-semibold text-gray-500 uppercase tracking-wide\">User ID</label>\<newline>'' @
     ''        <p class=\"text-gray-900 mt-1 font-mono text-sm\">'' @
     ident @
     ''</p>\<newline>'' @
     ''      </div>\<newline>'' @
     ''    </div>\<newline>'' @
     ''  ''"

definition createUserInfoFields :: "props \<Rightarrow> error + string" where
  "createUserInfoFields p =
     (let attributes = data_testid_attribute p
      in case member (get_prop p ''user'') ''name'' of
           Inl e \<Rightarrow> Inl e
         | Inr name \<Rightarrow>
            (case member (get_prop p ''user'') ''email'' of
               Inl e \<Rightarrow> Inl e
             | Inr email \<Rightarrow>
                (case member (get_prop p ''user'') ''id'' of
                   Inl e \<Rightarrow> Inl e
                 | Inr ident \<Rightarrow>
                     Inr (user_info_template attributes (to_String name) (to_String email)
                            (to_String ident)))))"

section \<open>The helper registry (src/ui/helpers/handlebars-helpers.ts)\<close>

text \<open>
  A helper receives the options of the call: \<open>hash\<close>, the named arguments, and \<open>fn\<close>,
  the renderer of the enclosed block, present in block form only. \<open>this\<close> is the data
  context of the surrounding template.

  \<^verbatim>\<open>function (options) {
    const props = options?.hash || {};
    if (options.fn) { props.children = options.fn(this); }
    const html = createCard(props);
    return new Handlebars.SafeString(html); }\<close>

  \<open>createButton\<close> (src/ui/components/button.ts) is not among the sources; the button
  helper takes it as a parameter.
\<close>

datatype safe_string = SafeString string

record 'ctx helper_options =
  hash :: "props option"
  fn :: "('ctx \<Rightarrow> string) option"

definition hash_or_empty :: "'ctx helper_options \<Rightarrow> props" where
  "hash_or_empty options = (case hash options of None \<Rightarrow> [] | Some h \<Rightarrow> h)"

definition block_helper ::
  "(props \<Rightarrow> string) \<Rightarrow> 'ctx helper_options \<Rightarrow> 'ctx \<Rightarrow> safe_string" where
  "block_helper create options this =
     (let props = hash_or_empty options;
          props = (case fn options of
                     None \<Rightarrow> props
                   | Some f \<Rightarrow> assign props ''children'' (JStr (f this)))
      in SafeString (create props))"

definition inline_helper ::
  "(props \<Rightarrow> error + string) \<Rightarrow> 'ctx helper_options \<Rightarrow> 'ctx \<Rightarrow> error + safe_string" where
  "inline_helper create options this =
     (case create (hash_or_empty options) of
        Inl e \<Rightarrow> Inl e
      | Inr html \<Rightarrow> Inr (SafeString html))"

definition button_helper ::
  "(props \<Rightarrow> string) \<Rightarrow> 'ctx helper_options \<Rightarrow> 'ctx \<Rightarrow> safe_string" where
  "button_helper createButton = block_helper createButton"

definition card_helper ::
  "(string \<Rightarrow> string) \<Rightarrow> 'ctx helper_options \<Rightarrow> 'ctx \<Rightarrow> safe_string" where
  "card_helper twMerge = block_helper (createCard twMerge)"

definition cardHeader_helper ::
  "(string \<Rightarrow> string) \<Rightarrow> 'ctx helper_options \<Rightarrow> 'ctx \<Rightarrow> safe_string" where
  "cardHeader_helper twMerge = block_helper (createCardHeader twMerge)"

definition cardTitle_helper ::
  "(string \<Rightarrow> string) \<Rightarrow> 'ctx helper_options \<Rightarrow> 'ctx \<Rightarrow> safe_string" where
  "cardTitle_helper twMerge = block_helper (createCardTitle twMerge)"

definition cardDescription_helper ::
  "(string \<Rightarrow> string) \<Rightarrow> 'ctx helper_options \<Rightarrow> 'ctx \<Rightarrow> safe_string" where
  "cardDescription_helper twMerge = block_helper (createCardDescription twMerge)"

definition cardAction_helper ::
  "(string \<Rightarrow> string) \<Rightarrow> 'ctx helper_options \<Rightarrow> 'ctx \<Rightarrow> safe_string" where
  "cardAction_helper twMerge = block_helper (createCardAction twMerge)"

definition cardContent_helper ::
  "(string \<Rightarrow> string) \<Rightarrow> 'ctx helper_options \<Rightarrow> 'ctx \<Rightarrow> safe_string" where
  "cardContent_helper twMerge = block_helper (createCardContent twMerge)"

definition cardFooter_helper ::
  "(string \<Rightarrow> string) \<Rightarrow> 'ctx helper_options \<Rightarrow> 'ctx \<Rightarrow> safe_string" where
  "cardFooter_helper twMerge = block_helper (createCardFooter twMerge)"

definition input_helper ::
  "(string \<Rightarrow> string) \<Rightarrow> 'ctx helper_options \<Rightarrow> 'ctx \<Rightarrow> error + safe_string" where
  "input_helper twMerge = inline_helper (\<lambda>p. Inr (createInput twMerge p))"

definition avatar_helper ::
  "(string \<Rightarrow> string) \<Rightarrow> 'ctx helper_options \<Rightarrow> 'ctx \<Rightarrow> error + safe_string" where
  "avatar_helper twMerge = inline_helper (createAvatar twMerge)"

definition badge_helper ::
  "(string \<Rightarrow> string) \<Rightarrow> 'ctx helper_options \<Rightarrow> 'ctx \<Rightarrow> error + safe_string" where
  "badge_helper twMerge = inline_helper (\<lambda>p. Inr (createBadge twMerge p))"

definition activityItem_helper ::
  "'ctx helper_options \<Rightarrow> 'ctx \<Rightarrow> error + safe_string" where
  "activityItem_helper = inline_helper (\<lambda>p. Inr (createActivityItem p))"

definition kpi_helper ::
  "(string \<Rightarrow> string) \<Rightarrow> 'ctx helper_options \<Rightarrow> 'ctx \<Rightarrow> error + safe_string" where
  "kpi_helper twMerge = inline_helper (\<lambda>p. Inr (createKPI twMerge p))"

definition userInfoFields_helper ::
  "'ctx helper_options \<Rightarrow> 'ctx \<Rightarrow> error + safe_string" where
  "userInfoFields_helper = inline_helper createUserInfoFields"

section \<open>Props objects: reading, assigning, omitting\<close>

lemma get_prop_assign:
  "get_prop (assign p k v) k' = (if k' = k then v else get_prop p k')"
  by (induction p) (auto simp: get_prop_def)

lemma keys_assign: "fst ` set (assign p k v) = insert k (fst ` set p)"
proof (induction p)
  case Nil
  show ?case by simp
next
  case (Cons a p)
  obtain k' v' where "a = (k', v')" by (cases a)
  with Cons show ?case by (cases "k' = k") (simp_all add: insert_commute)
qed

lemma keys_omit_keys: "fst ` set (omit_keys ks p) = fst ` set p - set ks"
  by (induction p) (auto simp: omit_keys_def)

lemma omit_keys_idem: "omit_keys ks (omit_keys ks p) = omit_keys ks p"
  by (simp add: omit_keys_def)

section \<open>Properties of the serializer\<close>

lemma serializer_items:
  "\<forall>(key, v) \<in> set attributes. key \<noteq> [] \<Longrightarrow>
   filter (\<lambda>s. s \<noteq> [])
     (map attribute_entry
       (filter (\<lambda>(key, v). v \<noteq> JUndefined \<and> v \<noteq> JNull) attributes))
   = concat (map spec_emit attributes)"
proof (induction attributes)
  case Nil
  then show ?case by simp
next
  case (Cons a attributes)
  obtain key v where a: "a = (key, v)" by (cases a)
  from Cons.prems a have key: "key \<noteq> []" by simp
  from Cons.prems have "\<forall>(key, v) \<in> set attributes. key \<noteq> []" by simp
  with Cons.IH have IH:
    "filter (\<lambda>s. s \<noteq> [])
       (map attribute_entry
         (filter (\<lambda>(key, v). v \<noteq> JUndefined \<and> v \<noteq> JNull) attributes))
     = concat (map spec_emit attributes)" by simp
  show ?case using key IH by (cases v) (simp_all add: a)
qed

text \<open>
  C2. For every attribute mapping (attribute names are non-empty), the serializer omits
  \<open>null\<close> and \<open>undefined\<close> entries, emits \<open>true\<close> as the bare name, omits \<open>false\<close>,
  emits every other entry as \<open>name="value"\<close> with the value in its string form, and joins
  the emitted entries with one space in iteration order; the empty mapping gives the empty
  string, and \<open>{disabled: true, hidden: false, id: "x"}\<close> gives \<open>disabled id="x"\<close>.
\<close>

theorem serializer_meets_spec:
  "((\<forall>(key, v) \<in> set attributes. key \<noteq> []) \<longrightarrow>
      createAttributesStringified attributes = spec_serialize attributes)
   \<and> createAttributesStringified [] = []
   \<and> createAttributesStringified
         [(''disabled'', JBool True), (''hidden'', JBool False), (''id'', JStr ''x'')]
       = ''disabled id=\"x\"''"
proof (intro conjI impI)
  assume "\<forall>(key, v) \<in> set attributes. key \<noteq> []"
  then show "createAttributesStringified attributes = spec_serialize attributes"
    by (simp add: createAttributesStringified_def spec_serialize_def serializer_items)
next
  show "createAttributesStringified [] = []"
    by (simp add: createAttributesStringified_def)
next
  show "createAttributesStringified
     [(''disabled'', JBool True), (''hidden'', JBool False), (''id'', JStr ''x'')]
   = ''disabled id=\"x\"''"
    by (simp add: createAttributesStringified_def)
qed

theorem serializer_meets_spec_witness:
  "list_all (\<lambda>(key, v). key \<noteq> [])
     [(''required'', JBool True), (''title'', JNull), (''maxlength'', JNum 12)]
   \<and> createAttributesStringified
        [(''required'', JBool True), (''title'', JNull), (''maxlength'', JNum 12)]
      = ''required maxlength=\"12\"''"
  using serializer_meets_spec
    [of "[(''required'', JBool True), (''title'', JNull), (''maxlength'', JNum 12)]"]
  by (simp add: spec_serialize_def show_int_def)

section \<open>Variant resolution\<close>













section \<open>The class string of the activity item\<close>

text \<open>
  C3 at the activity item. \<open>getActivityItemClasses\<close> joins the variant classes and the
  override with \<open>clsx\<close> alone, where every other factory calls \<open>cn\<close>: with the
  override \<open>py-2\<close> the base's \<open>py-4\<close> stays in the class string. The KPI hands
  the same kind of string, override last, to \<open>twMerge\<close>.
\<close>

theorem activity_item_override_keeps_conflicting_class:
  "getActivityItemClasses [(''className'', JStr ''py-2'')]
   = ''flex items-center justify-between py-4 hover:bg-gray-50 px-4 rounded-lg transition-colors border-b border-gray-100 py-2''
   \<and> cn twMerge [JStr (kpiVariants [(''variant'', JUndefined), (''size'', JUndefined)]),
                   JStr ''p-2'']
     = twMerge ''rounded-lg border bg-card text-card-foreground shadow-sm transition-all hover:shadow-md border-gray-200 p-6 p-2''"
  by (simp add: getActivityItemClasses_def activityItemVariants_def kpiVariants_def cn_def
      cva_def clsx_def variant_class_def get_prop_def js_or_def)

section \<open>Lookup tables of structural props\<close>

text \<open>
  C7 at the activity item. An unrecognised \<open>statusColor\<close> reads \<open>undefined\<close> from
  the table, and the dot's class list carries the text \<open>undefined\<close> instead of the
  blue default; the KPI's two tables fall back to their default entry.
\<close>

theorem activity_item_unknown_status_color:
  "activity_status_color [(''statusColor'', JStr ''orange'')] = JUndefined
   \<and> createActivityItem
        [(''title'', JStr ''Deploy''), (''timeAgo'', JStr ''now''),
         (''statusColor'', JStr ''orange'')]
     = activity_item_template
         ''flex items-center justify-between py-4 hover:bg-gray-50 px-4 rounded-lg transition-colors border-b border-gray-100''
         [] ''undefined'' ''Deploy'' [] ''now''
   \<and> getIconColorClasses (JStr ''orange'') = JStr ''bg-blue-100 text-blue-600''
   \<and> getTrendColorClasses (JStr ''sideways'') = JStr ''text-gray-600''"
  by (simp add: activity_status_color_def createActivityItem_def getActivityItemClasses_def
      data_testid_attribute_def
      activityItemVariants_def cva_def clsx_def variant_class_def get_prop_def js_or_def
      table_get_def statusColorClasses_def activity_description_html_def
      getIconColorClasses_def getTrendColorClasses_def colorMap_def trendMap_def)

section \<open>Avatar initials\<close>

lemma split_ws_not_Nil: "split_ws s \<noteq> []"
  by (induction s rule: split_ws.induct) (auto split: list.splits)

lemma tokens_acc_leading: "tokens_acc [] (dropWhile is_space s) = tokens_acc [] s"
  by (induction s) auto

lemma tokens_acc_trailing_one: "is_space c \<Longrightarrow> tokens_acc cur (s @ [c]) = tokens_acc cur s"
  by (induction s arbitrary: cur) auto

lemma tokens_acc_trailing:
  "tokens_acc cur (rev (dropWhile is_space (rev s))) = tokens_acc cur s"
proof (induction s rule: rev_induct)
  case Nil
  show ?case by simp
next
  case (snoc x xs)
  show ?case
  proof (cases "is_space x")
    case True
    with snoc show ?thesis by (simp add: tokens_acc_trailing_one)
  next
    case False
    then show ?thesis by simp
  qed
qed

lemma spec_tokens_trim: "spec_tokens (trim s) = spec_tokens s"
  by (simp add: spec_tokens_def trim_def tokens_acc_trailing tokens_acc_leading)

lemma tokens_acc_split_ws:
  "tokens_acc cur s =
     filter (\<lambda>t. t \<noteq> []) (case split_ws s of [] \<Rightarrow> [] | t # ts \<Rightarrow> (cur @ t) # ts)"
proof (induction s arbitrary: cur rule: split_ws.induct)
  case 1
  show ?case by simp
next
  case (2 c cs)
  show ?case
  proof (cases "is_space c")
    case True
    have "tokens_acc [] cs = tokens_acc [] (dropWhile is_space cs)"
      by (simp add: tokens_acc_leading)
    also have "\<dots> = filter (\<lambda>t. t \<noteq> []) (split_ws (dropWhile is_space cs))"
      using "2.IH"(1) [OF True, of "[]"] split_ws_not_Nil [of "dropWhile is_space cs"]
      by (simp split: list.splits)
    finally show ?thesis using True by simp
  next
    case False
    obtain t ts where sp: "split_ws cs = t # ts"
      using split_ws_not_Nil [of cs] by (cases "split_ws cs") auto
    show ?thesis using False sp "2.IH"(2) [OF False, of "cur @ [c]"] by simp
  qed
qed

lemma spec_tokens_split_ws: "spec_tokens s = filter (\<lambda>t. t \<noteq> []) (split_ws s)"
  using tokens_acc_split_ws [of "[]" s] split_ws_not_Nil [of s]
  by (simp add: spec_tokens_def split: list.splits)

lemma split_ws_head:
  "s \<noteq> [] \<Longrightarrow> \<not> is_space (hd s) \<Longrightarrow> hd (split_ws s) \<noteq> []"
  by (cases s) (auto split: list.splits)

lemma split_ws_tail:
  "(s \<noteq> [] \<longrightarrow> \<not> is_space (last s)) \<Longrightarrow> [] \<notin> set (tl (split_ws s))"
proof (induction s rule: split_ws.induct)
  case 1
  show ?case by simp
next
  case (2 c cs)
  show ?case
  proof (cases "is_space c")
    case True
    let ?d = "dropWhile is_space cs"
    from True "2.prems" have "cs \<noteq> []" by auto
    with "2.prems" have lastcs: "\<not> is_space (last cs)" by simp
    have dne: "?d \<noteq> []"
    proof
      assume "?d = []"
      then have "\<forall>x \<in> set cs. is_space x" by (simp add: dropWhile_eq_Nil_conv)
      with \<open>cs \<noteq> []\<close> lastcs show False using last_in_set by blast
    qed
    have hdd: "\<not> is_space (hd ?d)" using dne hd_dropWhile by blast
    have "last ?d = last cs"
      using dne by (metis last_appendR takeWhile_dropWhile_id)
    with lastcs have "?d \<noteq> [] \<longrightarrow> \<not> is_space (last ?d)" by simp
    with "2.IH"(1) [OF True] have tl: "[] \<notin> set (tl (split_ws ?d))" by simp
    have hd: "hd (split_ws ?d) \<noteq> []" using split_ws_head [OF dne hdd] .
    have "[] \<notin> set (split_ws ?d)"
      using hd tl split_ws_not_Nil [of ?d] by (cases "split_ws ?d") auto
    with True show ?thesis by simp
  next
    case False
    from "2.prems" have "cs \<noteq> [] \<longrightarrow> \<not> is_space (last cs)" by auto
    with "2.IH"(2) [OF False] have "[] \<notin> set (tl (split_ws cs))" by simp
    with False show ?thesis using split_ws_not_Nil [of cs] by (auto split: list.splits)
  qed
qed

lemma trim_ends:
  "trim s \<noteq> [] \<Longrightarrow> \<not> is_space (hd (trim s)) \<and> \<not> is_space (last (trim s))"
proof -
  assume ne: "trim s \<noteq> []"
  let ?a = "dropWhile is_space s"
  let ?b = "dropWhile is_space (rev ?a)"
  have t: "trim s = rev ?b" by (simp add: trim_def)
  with ne have bne: "?b \<noteq> []" by simp
  then have hb: "\<not> is_space (hd ?b)" using hd_dropWhile by blast
  have ane: "?a \<noteq> []"
  proof
    assume a: "?a = []"
    have "?b = []" unfolding a by simp
    with bne show False by simp
  qed
  then have ha: "\<not> is_space (hd ?a)" using hd_dropWhile by blast
  have last_t: "last (trim s) = hd ?b" using bne t by (simp add: last_rev)
  have "\<not> is_space (last (rev ?a))" using ane ha by (simp add: last_rev)
  then have "rev ?a = takeWhile is_space (rev ?a) @ ?b" by simp
  have "last ?b = last (rev ?a)"
    using bne by (metis last_appendR takeWhile_dropWhile_id)
  then have "hd (rev ?b) = hd ?a" using bne ane by (simp add: hd_rev last_rev)
  with ha hb t last_t show ?thesis by simp
qed

lemma split_ws_trim:
  "split_ws (trim s) = (if spec_tokens s = [] then [[]] else spec_tokens s)"
proof (cases "trim s = []")
  case True
  have "spec_tokens s = spec_tokens (trim s)" by (simp add: spec_tokens_trim)
  also have "\<dots> = []" using True by (simp add: spec_tokens_def)
  finally show ?thesis using True by simp
next
  case False
  from trim_ends [OF False] have e: "\<not> is_space (hd (trim s))" "\<not> is_space (last (trim s))"
    by simp_all
  have "[] \<notin> set (split_ws (trim s))"
    using split_ws_head [OF False e(1)] split_ws_tail [of "trim s"] e(2)
      split_ws_not_Nil [of "trim s"]
    by (cases "split_ws (trim s)") auto
  then have "filter (\<lambda>t. t \<noteq> []) (split_ws (trim s)) = split_ws (trim s)"
    by (simp add: filter_id_conv) metis
  then have "split_ws (trim s) = spec_tokens s"
    using spec_tokens_split_ws [of "trim s"] by (simp add: spec_tokens_trim)
  then show ?thesis using split_ws_not_Nil [of "trim s"] by auto
qed

lemma getInitials_spec: "getInitials (JStr name) = Inr (spec_initials name)"
proof (cases "name = []")
  case True
  then show ?thesis by (simp add: spec_initials_def spec_tokens_def)
next
  case False
  show ?thesis
  proof (cases "spec_tokens name")
    case Nil
    with False show ?thesis
      by (simp add: split_ws_trim spec_initials_def charAt0_def toUpperCase_def)
  next
    case (Cons t ts)
    show ?thesis
    proof (cases ts)
      case Nil
      with Cons False show ?thesis
        by (simp add: split_ws_trim spec_initials_def charAt0_def)
    next
      case (Cons u us)
      with \<open>spec_tokens name = t # ts\<close> False show ?thesis
        by (simp add: split_ws_trim spec_initials_def charAt0_def last_conv_nth)
    qed
  qed
qed

text \<open>
  C6. The initials of a name are the upper-cased first letter of its only
  whitespace-separated token, or of its first and its last token when there are several;
  \<open>Ada Lovelace\<close> gives \<open>AL\<close> and \<open>Prince\<close> gives \<open>P\<close>. Without a name and without
  an image source the avatar is still the wrapper \<open>div\<close>, with empty content; with
  a name and without an image source the content of the wrapper is the initials of the
  name.
\<close>

theorem initials_meet_spec:
  "getInitials (JStr name) = Inr (spec_initials name)
   \<and> getInitials (JStr ''Ada Lovelace'') = Inr ''AL''
   \<and> getInitials (JStr ''Prince'') = Inr ''P''
   \<and> (\<not> truthy (get_prop p ''name'') \<and> \<not> truthy (get_prop p ''src'') \<longrightarrow>
        createAvatar twMerge p
        = Inr (''<div data-slot=\"avatar\" class=\"''
               @ cn twMerge
                   [JStr (avatarVariants [(''variant'', get_prop p ''variant''),
                                          (''size'', get_prop p ''size'')]),
                    get_prop p ''className'']
               @ '' flex items-center justify-center font-semibold\" ''
               @ createAttributesStringified
                   (getAvatarAttributes
                      (omit_keys [''variant'', ''size'', ''className'', ''name'', ''src'',
                                  ''alt''] p))
               @ ''>'' @ [] @ ''</div>''))
   \<and> (get_prop p ''name'' = JStr name \<and> \<not> truthy (get_prop p ''src'') \<longrightarrow>
        createAvatar twMerge p
        = Inr (''<div data-slot=\"avatar\" class=\"''
               @ cn twMerge
                   [JStr (avatarVariants [(''variant'', get_prop p ''variant''),
                                          (''size'', get_prop p ''size'')]),
                    get_prop p ''className'']
               @ '' flex items-center justify-center font-semibold\" ''
               @ createAttributesStringified
                   (getAvatarAttributes
                      (omit_keys [''variant'', ''size'', ''className'', ''name'', ''src'',
                                  ''alt''] p))
               @ ''>'' @ spec_initials name @ ''</div>''))"
proof (intro conjI impI)
  show "getInitials (JStr name) = Inr (spec_initials name)" by (rule getInitials_spec)
next
  show "getInitials (JStr ''Ada Lovelace'') = Inr ''AL''"
    by (simp add: trim_def is_space_def toUpperCase_def charAt0_def upper_char_def)
next
  show "getInitials (JStr ''Prince'') = Inr ''P''"
    by (simp add: trim_def is_space_def toUpperCase_def charAt0_def upper_char_def)
next
  assume "\<not> truthy (get_prop p ''name'') \<and> \<not> truthy (get_prop p ''src'')"
  then show "createAvatar twMerge p
        = Inr (''<div data-slot=\"avatar\" class=\"''
               @ cn twMerge
                   [JStr (avatarVariants [(''variant'', get_prop p ''variant''),
                                          (''size'', get_prop p ''size'')]),
                    get_prop p ''className'']
               @ '' flex items-center justify-center font-semibold\" ''
               @ createAttributesStringified
                   (getAvatarAttributes
                      (omit_keys [''variant'', ''size'', ''className'', ''name'', ''src'',
                                  ''alt''] p))
               @ ''>'' @ [] @ ''</div>'')"
    by (simp add: createAvatar_def Let_def)
next
  assume h: "get_prop p ''name'' = JStr name \<and> \<not> truthy (get_prop p ''src'')"
  have "(if truthy (JStr name) then getInitials (JStr name) else Inr [])
        = Inr (spec_initials name)"
    by (cases "name = []") (simp_all add: getInitials_spec spec_initials_def spec_tokens_def
        del: getInitials.simps)
  with h show "createAvatar twMerge p
        = Inr (''<div data-slot=\"avatar\" class=\"''
               @ cn twMerge
                   [JStr (avatarVariants [(''variant'', get_prop p ''variant''),
                                          (''size'', get_prop p ''size'')]),
                    get_prop p ''className'']
               @ '' flex items-center justify-center font-semibold\" ''
               @ createAttributesStringified
                   (getAvatarAttributes
                      (omit_keys [''variant'', ''size'', ''className'', ''name'', ''src'',
                                  ''alt''] p))
               @ ''>'' @ spec_initials name @ ''</div>'')"
    by (simp add: createAvatar_def Let_def del: getInitials.simps)
qed

theorem initials_meet_spec_witness:
  "getInitials (JStr ''  grace  brewster hopper '') = Inr ''GH''
   \<and> (\<forall>twMerge. createAvatar twMerge [(''id'', JStr ''me'')]
        = Inr (''<div data-slot=\"avatar\" class=\"''
               @ twMerge ''relative flex shrink-0 overflow-hidden rounded-full bg-muted size-10 text-sm''
               @ '' flex items-center justify-center font-semibold\" id=\"me\"></div>''))
   \<and> (\<forall>twMerge. createAvatar twMerge [(''name'', JStr ''Ada Lovelace'')]
        = Inr (''<div data-slot=\"avatar\" class=\"''
               @ twMerge ''relative flex shrink-0 overflow-hidden rounded-full bg-muted size-10 text-sm''
               @ '' flex items-center justify-center font-semibold\" >AL</div>''))"
proof (intro conjI allI)
  have "spec_initials ''  grace  brewster hopper '' = ''GH''"
    by (simp add: spec_initials_def spec_tokens_def is_space_def toUpperCase_def
        upper_char_def)
  with initials_meet_spec [of "''  grace  brewster hopper ''" "[]" "\<lambda>s. s"]
  show "getInitials (JStr ''  grace  brewster hopper '') = Inr ''GH''" by simp
next
  fix twMerge :: "string \<Rightarrow> string"
  have "\<not> truthy (get_prop [(''id'', JStr ''me'')] ''name'')
        \<and> \<not> truthy (get_prop [(''id'', JStr ''me'')] ''src'')"
    by (simp add: get_prop_def)
  with initials_meet_spec [of "''x''" "[(''id'', JStr ''me'')]" twMerge]
  show "createAvatar twMerge [(''id'', JStr ''me'')]
        = Inr (''<div data-slot=\"avatar\" class=\"''
               @ twMerge ''relative flex shrink-0 overflow-hidden rounded-full bg-muted size-10 text-sm''
               @ '' flex items-center justify-center font-semibold\" id=\"me\"></div>'')"
    by (simp add: cn_def clsx_def avatarVariants_def cva_def variant_class_def get_prop_def
        js_or_def getAvatarAttributes_def omit_keys_def createAttributesStringified_def)
next
  fix twMerge :: "string \<Rightarrow> string"
  have si: "spec_initials ''Ada Lovelace'' = ''AL''"
    by (simp add: spec_initials_def spec_tokens_def is_space_def toUpperCase_def
        upper_char_def)
  have "get_prop [(''name'', JStr ''Ada Lovelace'')] ''name'' = JStr ''Ada Lovelace''
        \<and> \<not> truthy (get_prop [(''name'', JStr ''Ada Lovelace'')] ''src'')"
    by (simp add: get_prop_def)
  with initials_meet_spec
    [of "''Ada Lovelace''" "[(''name'', JStr ''Ada Lovelace'')]" twMerge,
     THEN conjunct2, THEN conjunct2, THEN conjunct2, THEN conjunct2]
  have "createAvatar twMerge [(''name'', JStr ''Ada Lovelace'')]
        = Inr (''<div data-slot=\"avatar\" class=\"''
               @ cn twMerge
                   [JStr (avatarVariants
                            [(''variant'', get_prop [(''name'', JStr ''Ada Lovelace'')] ''variant''),
                             (''size'', get_prop [(''name'', JStr ''Ada Lovelace'')] ''size'')]),
                    get_prop [(''name'', JStr ''Ada Lovelace'')] ''className'']
               @ '' flex items-center justify-center font-semibold\" ''
               @ createAttributesStringified
                   (getAvatarAttributes
                      (omit_keys [''variant'', ''size'', ''className'', ''name'', ''src'',
                                  ''alt''] [(''name'', JStr ''Ada Lovelace'')]))
               @ ''>'' @ spec_initials ''Ada Lovelace'' @ ''</div>'')"
    by (rule mp)
  then show "createAvatar twMerge [(''name'', JStr ''Ada Lovelace'')]
        = Inr (''<div data-slot=\"avatar\" class=\"''
               @ twMerge ''relative flex shrink-0 overflow-hidden rounded-full bg-muted size-10 text-sm''
               @ '' flex items-center justify-center font-semibold\" >AL</div>'')"
    by (simp add: si cn_def clsx_def avatarVariants_def cva_def variant_class_def get_prop_def
        js_or_def getAvatarAttributes_def omit_keys_def createAttributesStringified_def)
qed

section \<open>Failure of the factories\<close>

lemma member_ok: "(\<exists>v. member u key = Inr v) \<longleftrightarrow> u \<noteq> JUndefined \<and> u \<noteq> JNull"
  by (cases u) simp_all

lemma createUserInfoFields_ok:
  "(\<exists>markup. createUserInfoFields p = Inr markup)
   \<longleftrightarrow> get_prop p ''user'' \<noteq> JUndefined \<and> get_prop p ''user'' \<noteq> JNull"
  by (cases "get_prop p ''user''") (simp_all add: createUserInfoFields_def)

lemma getInitials_ok:
  "(\<exists>initials. getInitials v = Inr initials) \<longleftrightarrow> (\<not> truthy v \<or> (\<exists>s. v = JStr s))"
  by (cases v) (simp_all add: Let_def)

lemma createAvatar_ok:
  "(\<exists>markup. createAvatar twMerge p = Inr markup)
   \<longleftrightarrow> (\<not> truthy (get_prop p ''name'') \<or> (\<exists>s. get_prop p ''name'' = JStr s))"
proof (cases "truthy (get_prop p ''name'')")
  case False
  then show ?thesis by (simp add: createAvatar_def Let_def)
next
  case True
  show ?thesis
  proof (cases "getInitials (get_prop p ''name'')")
    case (Inl e)
    with True getInitials_ok [of "get_prop p ''name''"] show ?thesis
      by (simp add: createAvatar_def Let_def)
  next
    case (Inr initials)
    with True getInitials_ok [of "get_prop p ''name''"] show ?thesis
      by (simp add: createAvatar_def Let_def)
  qed
qed

text \<open>
  C4, as the code has it. The user-info block returns markup exactly when \<open>props.user\<close>
  is neither \<open>undefined\<close> nor \<open>null\<close>, and raises a TypeError otherwise; the avatar
  returns markup exactly when \<open>name\<close> is falsy or a string; the input, badge, KPI and
  activity-item factories return markup for every props object (the card factories cannot
  fail either: their helpers have no error result). Without a \<open>description\<close> the activity
  item has the empty string in the description slot, not an empty element.
\<close>

theorem factories_raise_only_without_user_or_on_non_string_name:
  "((\<exists>markup. createUserInfoFields p = Inr markup)
      \<longleftrightarrow> get_prop p ''user'' \<noteq> JUndefined \<and> get_prop p ''user'' \<noteq> JNull)
   \<and> ((\<exists>markup. createAvatar twMerge p = Inr markup)
      \<longleftrightarrow> (\<not> truthy (get_prop p ''name'') \<or> (\<exists>s. get_prop p ''name'' = JStr s)))
   \<and> (\<exists>markup. input_helper twMerge options this = Inr (SafeString markup))
   \<and> (\<exists>markup. badge_helper twMerge options this = Inr (SafeString markup))
   \<and> (\<exists>markup. kpi_helper twMerge options this = Inr (SafeString markup))
   \<and> (\<exists>markup. activityItem_helper options this = Inr (SafeString markup))
   \<and> (\<not> truthy (get_prop p ''description'') \<longrightarrow>
        createActivityItem p
        = activity_item_template (getActivityItemClasses p) (data_testid_attribute p)
            (to_String (activity_status_color p)) (to_String (get_prop p ''title'')) []
            (to_String (get_prop p ''timeAgo'')))"
proof (intro conjI impI)
  show "(\<exists>markup. createUserInfoFields p = Inr markup)
      \<longleftrightarrow> get_prop p ''user'' \<noteq> JUndefined \<and> get_prop p ''user'' \<noteq> JNull"
    by (rule createUserInfoFields_ok)
  show "(\<exists>markup. createAvatar twMerge p = Inr markup)
      \<longleftrightarrow> (\<not> truthy (get_prop p ''name'') \<or> (\<exists>s. get_prop p ''name'' = JStr s))"
    by (rule createAvatar_ok)
  show "\<exists>markup. input_helper twMerge options this = Inr (SafeString markup)"
    by (simp add: input_helper_def inline_helper_def)
  show "\<exists>markup. badge_helper twMerge options this = Inr (SafeString markup)"
    by (simp add: badge_helper_def inline_helper_def)
  show "\<exists>markup. kpi_helper twMerge options this = Inr (SafeString markup)"
    by (simp add: kpi_helper_def inline_helper_def)
  show "\<exists>markup. activityItem_helper options this = Inr (SafeString markup)"
    by (simp add: activityItem_helper_def inline_helper_def)
next
  assume "\<not> truthy (get_prop p ''description'')"
  then show "createActivityItem p
        = activity_item_template (getActivityItemClasses p) (data_testid_attribute p)
            (to_String (activity_status_color p)) (to_String (get_prop p ''title'')) []
            (to_String (get_prop p ''timeAgo''))"
    by (simp add: createActivityItem_def activity_description_html_def)
qed

theorem factories_raise_only_without_user_or_on_non_string_name_witness:
  "(\<exists>markup. createUserInfoFields
       [(''user'', JObj [(''name'', JStr ''Ada''), (''email'', JStr ''ada@example.org''),
                         (''id'', JNum 7)]),
        (''title'', JStr ''Deploy''), (''timeAgo'', JStr ''now'')] = Inr markup)
   \<and> createActivityItem
       [(''user'', JObj [(''name'', JStr ''Ada''), (''email'', JStr ''ada@example.org''),
                         (''id'', JNum 7)]),
        (''title'', JStr ''Deploy''), (''timeAgo'', JStr ''now'')]
     = activity_item_template
         ''flex items-center justify-between py-4 hover:bg-gray-50 px-4 rounded-lg transition-colors border-b border-gray-100''
         [] ''bg-blue-600'' ''Deploy'' [] ''now''"
  using factories_raise_only_without_user_or_on_non_string_name
    [of "[(''user'', JObj [(''name'', JStr ''Ada''), (''email'', JStr ''ada@example.org''),
                           (''id'', JNum 7)]),
          (''title'', JStr ''Deploy''), (''timeAgo'', JStr ''now'')]"
        "\<lambda>s. s" "\<lparr>hash = None, fn = None\<rparr>" "()"]
  by (simp add: get_prop_def getActivityItemClasses_def activityItemVariants_def cva_def
      clsx_def variant_class_def js_or_def data_testid_attribute_def
      activity_status_color_def table_get_def statusColorClasses_def)

text \<open>
  The user-info block without a user record raises, as does the avatar on a numeric name.
\<close>

theorem user_info_without_user_raises_counterexample:
  "createUserInfoFields [] = Inl TypeError
   \<and> userInfoFields_helper \<lparr>hash = Some [(''className'', JStr ''mt-4'')], fn = None\<rparr> ()
     = Inl TypeError
   \<and> createAvatar (\<lambda>s. s) [(''name'', JNum 5)] = Inl TypeError"
  by (simp add: createUserInfoFields_def userInfoFields_helper_def inline_helper_def
      hash_or_empty_def get_prop_def createAvatar_def Let_def)

section \<open>Block form and inline form of the helpers\<close>

lemma assign_assign: "assign (assign p k c) k v = assign p k v"
  by (induction p) auto

lemma block_helper_block_form:
  "block_helper create \<lparr>hash = Some p, fn = Some f\<rparr> this
   = SafeString (create (assign p ''children'' (JStr (f this))))"
  by (simp add: block_helper_def hash_or_empty_def)

lemma block_helper_inline_form:
  "block_helper create \<lparr>hash = Some p, fn = None\<rparr> this = SafeString (create p)"
  by (simp add: block_helper_def hash_or_empty_def)

text \<open>
  C5. For the button helper, the card helper and the six card sub-region helpers, and for
  every props mapping \<open>p\<close> and block renderer \<open>f\<close>: the block form returns the markup of
  the factory on \<open>p\<close> with \<open>children\<close> set to the rendered block, which is what the
  inline form returns on those props; the rendered block replaces any \<open>children\<close> given
  as a named argument.
\<close>

theorem block_form_is_inline_with_children:
  "(h, create) \<in> set [(button_helper createButton, createButton),
                       (card_helper twMerge, createCard twMerge),
                       (cardHeader_helper twMerge, createCardHeader twMerge),
                       (cardTitle_helper twMerge, createCardTitle twMerge),
                       (cardDescription_helper twMerge, createCardDescription twMerge),
                       (cardAction_helper twMerge, createCardAction twMerge),
                       (cardContent_helper twMerge, createCardContent twMerge),
                       (cardFooter_helper twMerge, createCardFooter twMerge)] \<longrightarrow>
     h \<lparr>hash = Some p, fn = Some f\<rparr> this
       = SafeString (create (assign p ''children'' (JStr (f this))))
   \<and> h \<lparr>hash = Some p, fn = Some f\<rparr> this
       = h \<lparr>hash = Some (assign p ''children'' (JStr (f this))), fn = None\<rparr> this
   \<and> get_prop (assign p ''children'' (JStr (f this))) ''children'' = JStr (f this)
   \<and> h \<lparr>hash = Some (assign p ''children'' c), fn = Some f\<rparr> this
       = h \<lparr>hash = Some p, fn = Some f\<rparr> this"
  by (auto simp: button_helper_def card_helper_def cardHeader_helper_def cardTitle_helper_def
      cardDescription_helper_def cardAction_helper_def cardContent_helper_def
      cardFooter_helper_def block_helper_block_form block_helper_inline_form assign_assign
      get_prop_assign)

theorem block_form_is_inline_with_children_witness:
  "card_helper (\<lambda>s. s)
     \<lparr>hash = Some [(''children'', JStr ''named''), (''id'', JStr ''c1'')],
      fn = Some (\<lambda>this. ''Hello'')\<rparr> ()
   = SafeString (createCard (\<lambda>s. s) [(''children'', JStr ''Hello''), (''id'', JStr ''c1'')])
   \<and> createCard (\<lambda>s. s) [(''children'', JStr ''Hello''), (''id'', JStr ''c1'')]
     = ''<div data-slot=\"card\" class=\"bg-card text-card-foreground flex flex-col gap-6 rounded-xl border shadow-sm border-gray-200 py-6\" id=\"c1\">Hello</div>''"
proof
  show "card_helper (\<lambda>s. s)
     \<lparr>hash = Some [(''children'', JStr ''named''), (''id'', JStr ''c1'')],
      fn = Some (\<lambda>this. ''Hello'')\<rparr> ()
   = SafeString (createCard (\<lambda>s. s) [(''children'', JStr ''Hello''), (''id'', JStr ''c1'')])"
    using block_form_is_inline_with_children
      [of "card_helper (\<lambda>s. s)" "createCard (\<lambda>s. s)" "\<lambda>p. []" "\<lambda>s. s"
          "[(''children'', JStr ''named''), (''id'', JStr ''c1'')]" "\<lambda>this. ''Hello''" "()"
          "JStr ''x''"]
    by simp
  show "createCard (\<lambda>s. s) [(''children'', JStr ''Hello''), (''id'', JStr ''c1'')]
     = ''<div data-slot=\"card\" class=\"bg-card text-card-foreground flex flex-col gap-6 rounded-xl border shadow-sm border-gray-200 py-6\" id=\"c1\">Hello</div>''"
    by (simp add: createCard_def cn_def clsx_def cardVariants_def cva_def variant_class_def
        get_prop_def js_or_def getCardAttributes_def omit_keys_def
        createAttributesStringified_def children_content_def)
qed

section \<open>Children of the card factories\<close>

lemma omit_keys_assign:
  "k \<in> set ks \<Longrightarrow> omit_keys ks (assign p k v) = omit_keys ks p"
proof (induction p)
  case Nil
  then show ?case by (simp add: omit_keys_def)
next
  case (Cons a p)
  obtain k' v' where a: "a = (k', v')" by (cases a)
  from Cons have "filter (\<lambda>(k, v). k \<notin> set ks) (assign p k v)
                  = filter (\<lambda>(k, v). k \<notin> set ks) p"
    by (simp add: omit_keys_def)
  with Cons.prems a show ?case by (cases "k' = k") (simp_all add: omit_keys_def)
qed

text \<open>
  C8. The card factory and each sub-region factory return a wrapper prefix that does not
  depend on the children, then the children string unchanged, then the closing tag. So a
  card whose children are a rendered header followed by a rendered content holds both
  fragments byte for byte.
\<close>

theorem card_children_verbatim:
  "(\<exists>pre. \<forall>s. createCard twMerge (assign p ''children'' (JStr s)) = pre @ s @ ''</div>'')
   \<and> (\<exists>pre. \<forall>s. createCardHeader twMerge (assign p ''children'' (JStr s))
                  = pre @ s @ ''</div>'')
   \<and> (\<exists>pre. \<forall>s. createCardTitle twMerge (assign p ''children'' (JStr s))
                  = pre @ s @ ''</div>'')
   \<and> (\<exists>pre. \<forall>s. createCardDescription twMerge (assign p ''children'' (JStr s))
                  = pre @ s @ ''</div>'')
   \<and> (\<exists>pre. \<forall>s. createCardAction twMerge (assign p ''children'' (JStr s))
                  = pre @ s @ ''</div>'')
   \<and> (\<exists>pre. \<forall>s. createCardContent twMerge (assign p ''children'' (JStr s))
                  = pre @ s @ ''</div>'')
   \<and> (\<exists>pre. \<forall>s. createCardFooter twMerge (assign p ''children'' (JStr s))
                  = pre @ s @ ''</div>'')
   \<and> (\<exists>pre. createCard twMerge
                (assign p ''children''
                   (JStr (createCardHeader twMerge h @ createCardContent twMerge c)))
              = pre @ createCardHeader twMerge h @ createCardContent twMerge c @ ''</div>'')"
proof (intro conjI)
  show "\<exists>pre. \<forall>s. createCard twMerge (assign p ''children'' (JStr s)) = pre @ s @ ''</div>''"
    by (rule exI [of _ "''<div data-slot=\"card\" class=\"''
          @ cn twMerge [JStr (cardVariants [(''variant'', get_prop p ''variant''),
                                            (''padding'', get_prop p ''padding'')]),
                        get_prop p ''className'']
          @ ''\" ''
          @ createAttributesStringified
              (getCardAttributes
                 (omit_keys [''variant'', ''padding'', ''className'', ''children''] p))
          @ ''>''"])
      (simp add: createCard_def get_prop_assign omit_keys_assign children_content_def)
  then show "\<exists>pre. createCard twMerge
                (assign p ''children''
                   (JStr (createCardHeader twMerge h @ createCardContent twMerge c)))
              = pre @ createCardHeader twMerge h @ createCardContent twMerge c @ ''</div>''"
    by (metis append.assoc)
  show "\<exists>pre. \<forall>s. createCardHeader twMerge (assign p ''children'' (JStr s))
                  = pre @ s @ ''</div>''"
    by (rule exI [of _ "''<div data-slot=\"card-header\" class=\"''
          @ cn twMerge [JStr ''@container/card-header grid auto-rows-min grid-rows-[auto_auto] items-start gap-2 px-6 has-data-[slot=card-action]:grid-cols-[1fr_auto] [.border-b]:pb-6'',
                        get_prop p ''className'']
          @ ''\" ''
          @ createAttributesStringified
              (getCardHeaderAttributes (omit_keys [''className'', ''children''] p))
          @ ''>''"])
      (simp add: createCardHeader_def get_prop_assign omit_keys_assign children_content_def)
  show "\<exists>pre. \<forall>s. createCardTitle twMerge (assign p ''children'' (JStr s))
                  = pre @ s @ ''</div>''"
    by (rule exI [of _ "''<div data-slot=\"card-title\" class=\"''
          @ cn twMerge [JStr ''leading-none font-semibold'', get_prop p ''className'']
          @ ''\" ''
          @ createAttributesStringified
              (getCardTitleAttributes (omit_keys [''className'', ''children''] p))
          @ ''>''"])
      (simp add: createCardTitle_def get_prop_assign omit_keys_assign children_content_def)
  show "\<exists>pre. \<forall>s. createCardDescription twMerge (assign p ''children'' (JStr s))
                  = pre @ s @ ''</div>''"
    by (rule exI [of _ "''<div data-slot=\"card-description\" class=\"''
          @ cn twMerge [JStr ''text-muted-foreground text-sm'', get_prop p ''className'']
          @ ''\" ''
          @ createAttributesStringified
              (getCardDescriptionAttributes (omit_keys [''className'', ''children''] p))
          @ ''>''"])
      (simp add: createCardDescription_def get_prop_assign omit_keys_assign
        children_content_def)
  show "\<exists>pre. \<forall>s. createCardAction twMerge (assign p ''children'' (JStr s))
                  = pre @ s @ ''</div>''"
    by (rule exI [of _ "''<div data-slot=\"card-action\" class=\"''
          @ cn twMerge [JStr ''col-start-2 row-span-2 row-start-1 self-start justify-self-end'',
                        get_prop p ''className'']
          @ ''\" ''
          @ createAttributesStringified
              (getCardActionAttributes (omit_keys [''className'', ''children''] p))
          @ ''>''"])
      (simp add: createCardAction_def get_prop_assign omit_keys_assign children_content_def)
  show "\<exists>pre. \<forall>s. createCardContent twMerge (assign p ''children'' (JStr s))
                  = pre @ s @ ''</div>''"
    by (rule exI [of _ "''<div data-slot=\"card-content\" class=\"''
          @ cn twMerge [JStr ''px-6'', get_prop p ''className'']
          @ ''\" ''
          @ createAttributesStringified
              (getCardContentAttributes (omit_keys [''className'', ''children''] p))
          @ ''>''"])
      (simp add: createCardContent_def get_prop_assign omit_keys_assign children_content_def)
  show "\<exists>pre. \<forall>s. createCardFooter twMerge (assign p ''children'' (JStr s))
                  = pre @ s @ ''</div>''"
    by (rule exI [of _ "''<div data-slot=\"card-footer\" class=\"''
          @ cn twMerge [JStr ''flex items-center px-6 [.border-t]:pt-6'',
                        get_prop p ''className'']
          @ ''\" ''
          @ createAttributesStringified
              (getCardFooterAttributes (omit_keys [''className'', ''children''] p))
          @ ''>''"])
      (simp add: createCardFooter_def get_prop_assign omit_keys_assign children_content_def)
qed

section \<open>Keys of the attribute sets\<close>

lemma omit_keys_strips: "fst ` set (omit_keys ks p) \<inter> set ks = {}"
  by (auto simp: omit_keys_def)

lemma in_keys_spread_if:
  "k \<in> fst ` set (spread_if cond key v obj) \<longleftrightarrow> (truthy cond \<and> k = key) \<or> k \<in> fst ` set obj"
  by (simp add: spread_if_def keys_assign)

lemma getInputAttributes_strips_key:
  assumes "k \<in> set [''variant'', ''size'', ''state'', ''className'',
                      ''onInput'', ''onChange'', ''onBlur'', ''onFocus'']"
  shows "k \<notin> fst ` set (getInputAttributes p)"
proof -
  have a: "k \<notin> fst ` set (omit_keys [''variant'', ''size'', ''state'', ''className'',
                      ''onInput'', ''onChange'', ''onBlur'', ''onFocus''] p)"
    using assms by (simp only: keys_omit_keys) simp
  have b: "k \<noteq> ''oninput''" "k \<noteq> ''onchange''" "k \<noteq> ''onblur''" "k \<noteq> ''onfocus''"
    "k \<noteq> ''disabled''" "k \<noteq> ''readonly''" "k \<noteq> ''required''" "k \<noteq> ''autofocus''"
    using assms by auto
  show ?thesis
    using a b by (simp add: getInputAttributes_def Let_def in_keys_spread_if)
qed

lemma getInputAttributes_strips:
  "fst ` set (getInputAttributes p)
   \<inter> set [''variant'', ''size'', ''state'', ''className'',
            ''onInput'', ''onChange'', ''onBlur'', ''onFocus''] = {}"
  using getInputAttributes_strips_key [of _ p] by (meson disjoint_iff)

text \<open>
  C9, as the code has it. The attribute set a factory hands to the serializer never
  contains the keys that factory itself strips: its own variant axes, \<open>className\<close>,
  \<open>children\<close> where the factory takes children, and its own structural props. The
  last conjunct is the badge, which passes the rest of its destructuring directly.
\<close>

theorem attribute_sets_strip_own_keys:
  "fst ` set (getAvatarAttributes p)
     \<inter> set [''variant'', ''size'', ''className'', ''name'', ''src'', ''alt''] = {}
   \<and> fst ` set (getKPIAttributes p)
     \<inter> set [''variant'', ''size'', ''className'', ''title'', ''value'', ''description'',
              ''iconPath'', ''iconColor'', ''change'', ''trend'', ''changeDescription''] = {}
   \<and> fst ` set (getInputAttributes p)
     \<inter> set [''variant'', ''size'', ''state'', ''className'',
              ''onInput'', ''onChange'', ''onBlur'', ''onFocus''] = {}
   \<and> fst ` set (getCardAttributes p)
     \<inter> set [''variant'', ''padding'', ''className'', ''children''] = {}
   \<and> fst ` set (getCardHeaderAttributes p) \<inter> set [''className'', ''children''] = {}
   \<and> fst ` set (getCardTitleAttributes p) \<inter> set [''className'', ''children''] = {}
   \<and> fst ` set (getCardDescriptionAttributes p) \<inter> set [''className'', ''children''] = {}
   \<and> fst ` set (getCardActionAttributes p) \<inter> set [''className'', ''children''] = {}
   \<and> fst ` set (getCardContentAttributes p) \<inter> set [''className'', ''children''] = {}
   \<and> fst ` set (getCardFooterAttributes p) \<inter> set [''className'', ''children''] = {}
   \<and> fst ` set (omit_keys [''variant'', ''className'', ''children''] p)
     \<inter> set [''variant'', ''className'', ''children''] = {}"
  unfolding getAvatarAttributes_def getKPIAttributes_def getCardAttributes_def
    getCardHeaderAttributes_def getCardTitleAttributes_def getCardDescriptionAttributes_def
    getCardActionAttributes_def getCardContentAttributes_def getCardFooterAttributes_def
  by (intro conjI omit_keys_strips getInputAttributes_strips)

text \<open>
  A key that is an axis of another factory only is not stripped: \<open>state\<close> and
  \<open>children\<close> given to the avatar, or \<open>size\<close> given to the card, reach the attribute
  set and the markup.
\<close>

theorem foreign_axis_key_leaks_counterexample:
  "getAvatarAttributes
     (omit_keys [''variant'', ''size'', ''className'', ''name'', ''src'', ''alt'']
        [(''state'', JStr ''error''), (''children'', JStr ''x'')])
   = [(''state'', JStr ''error''), (''children'', JStr ''x'')]
   \<and> createAvatar (\<lambda>s. s) [(''state'', JStr ''error''), (''children'', JStr ''x'')]
     = Inr ''<div data-slot=\"avatar\" class=\"relative flex shrink-0 overflow-hidden rounded-full bg-muted size-10 text-sm flex items-center justify-center font-semibold\" state=\"error\" children=\"x\"></div>''
   \<and> getCardAttributes
       (omit_keys [''variant'', ''padding'', ''className'', ''children'']
          [(''size'', JStr ''lg'')])
     = [(''size'', JStr ''lg'')]"
  by (simp add: getAvatarAttributes_def getCardAttributes_def omit_keys_def createAvatar_def
      cn_def clsx_def avatarVariants_def cva_def variant_class_def get_prop_def js_or_def
      createAttributesStringified_def)

section \<open>The space before the attribute string\<close>

text \<open>
  C10. When the attribute string is empty, the tag keeps the space that precedes it:
  the card, its sub-regions, the badge, the avatar, the KPI, the activity item and the
  user-info block end their opening tag with \<open>" >\<close>, the input ends with \<open>"  />\<close>,
  and \<open>createCard({})\<close> is \<open><div data-slot="card" class="..." ></div>\<close>. The last
  two conjuncts are the avatar with a name, and the avatar with an image source, whose
  \<open>img\<close> tag has the space after the \<open>alt\<close> attribute.
\<close>

theorem empty_attributes_leave_a_space:
  "(createAttributesStringified
      (getCardAttributes (omit_keys [''variant'', ''padding'', ''className'', ''children''] p))
    = [] \<longrightarrow>
      createCard twMerge p
      = ''<div data-slot=\"card\" class=\"''
        @ cn twMerge [JStr (cardVariants [(''variant'', get_prop p ''variant''),
                                          (''padding'', get_prop p ''padding'')]),
                      get_prop p ''className'']
        @ ''\" >'' @ children_content (get_prop p ''children'') @ ''</div>'')
   \<and> (createAttributesStringified
      (getCardHeaderAttributes (omit_keys [''className'', ''children''] p)) = [] \<longrightarrow>
      createCardHeader twMerge p
      = ''<div data-slot=\"card-header\" class=\"''
        @ cn twMerge [JStr ''@container/card-header grid auto-rows-min grid-rows-[auto_auto] items-start gap-2 px-6 has-data-[slot=card-action]:grid-cols-[1fr_auto] [.border-b]:pb-6'',
                      get_prop p ''className'']
        @ ''\" >'' @ children_content (get_prop p ''children'') @ ''</div>'')
   \<and> (createAttributesStringified
      (getCardTitleAttributes (omit_keys [''className'', ''children''] p)) = [] \<longrightarrow>
      createCardTitle twMerge p
      = ''<div data-slot=\"card-title\" class=\"''
        @ cn twMerge [JStr ''leading-none font-semibold'',
                      get_prop p ''className'']
        @ ''\" >'' @ children_content (get_prop p ''children'') @ ''</div>'')
   \<and> (createAttributesStringified
      (getCardDescriptionAttributes (omit_keys [''className'', ''children''] p)) = [] \<longrightarrow>
      createCardDescription twMerge p
      = ''<div data-slot=\"card-description\" class=\"''
        @ cn twMerge [JStr ''text-muted-foreground text-sm'',
                      get_prop p ''className'']
        @ ''\" >'' @ children_content (get_prop p ''children'') @ ''</div>'')
   \<and> (createAttributesStringified
      (getCardActionAttributes (omit_keys [''className'', ''children''] p)) = [] \<longrightarrow>
      createCardAction twMerge p
      = ''<div data-slot=\"card-action\" class=\"''
        @ cn twMerge [JStr ''col-start-2 row-span-2 row-start-1 self-start justify-self-end'',
                      get_prop p ''className'']
        @ ''\" >'' @ children_content (get_prop p ''children'') @ ''</div>'')
   \<and> (createAttributesStringified
      (getCardContentAttributes (omit_keys [''className'', ''children''] p)) = [] \<longrightarrow>
      createCardContent twMerge p
      = ''<div data-slot=\"card-content\" class=\"''
        @ cn twMerge [JStr ''px-6'',
                      get_prop p ''className'']
        @ ''\" >'' @ children_content (get_prop p ''children'') @ ''</div>'')
   \<and> (createAttributesStringified
      (getCardFooterAttributes (omit_keys [''className'', ''children''] p)) = [] \<longrightarrow>
      createCardFooter twMerge p
      = ''<div data-slot=\"card-footer\" class=\"''
        @ cn twMerge [JStr ''flex items-center px-6 [.border-t]:pt-6'',
                      get_prop p ''className'']
        @ ''\" >'' @ children_content (get_prop p ''children'') @ ''</div>'')
   \<and> (createAttributesStringified (omit_keys [''variant'', ''className'', ''children''] p) = [] \<longrightarrow>
      createBadge twMerge p
      = ''<span class=\"''
        @ cn twMerge [JStr (badgeVariants [(''variant'', get_prop p ''variant'')]),
                      get_prop p ''className'']
        @ ''\" >'' @ children_content (get_prop p ''children'') @ ''</span>'')
   \<and> (createAttributesStringified
      (getInputAttributes (omit_keys [''variant'', ''size'', ''state'', ''className''] p))
    = [] \<longrightarrow>
      createInput twMerge p
      = ''<input class=\"''
        @ cn twMerge [JStr (inputVariants [(''variant'', get_prop p ''variant''),
                                           (''size'', get_prop p ''size''),
                                           (''state'', get_prop p ''state'')]),
                      get_prop p ''className'']
        @ ''\"  />'')
   \<and> (createAttributesStringified
      (getAvatarAttributes
         (omit_keys [''variant'', ''size'', ''className'', ''name'', ''src'', ''alt''] p))
    = [] \<and> \<not> truthy (get_prop p ''name'') \<and> \<not> truthy (get_prop p ''src'') \<longrightarrow>
      createAvatar twMerge p
      = Inr (''<div data-slot=\"avatar\" class=\"''
             @ cn twMerge [JStr (avatarVariants [(''variant'', get_prop p ''variant''),
                                                 (''size'', get_prop p ''size'')]),
                           get_prop p ''className'']
             @ '' flex items-center justify-center font-semibold\" ></div>''))
   \<and> (createAttributesStringified
      (getKPIAttributes (omit_keys [''variant'', ''size'', ''className''] p)) = [] \<longrightarrow>
      (\<exists>rest. createKPI twMerge p
        = ''<div class=\"''
          @ cn twMerge [JStr (kpiVariants [(''variant'', get_prop p ''variant''),
                                           (''size'', get_prop p ''size'')]),
                        get_prop p ''className'']
          @ ''\" >'' @ rest))
   \<and> (\<not> truthy (get_prop p ''data-testid'') \<longrightarrow>
      (\<exists>rest. createActivityItem p
        = ''\<newline>    <div class=\"'' @ getActivityItemClasses p @ ''\" >'' @ rest))
   \<and> (\<not> truthy (get_prop p ''data-testid'') \<and> createUserInfoFields p = Inr markup \<longrightarrow>
      (\<exists>rest. markup = ''\<newline>    <div class=\"space-y-4\" >'' @ rest))
   \<and> createCard twMerge []
     = ''<div data-slot=\"card\" class=\"''
       @ twMerge ''bg-card text-card-foreground flex flex-col gap-6 rounded-xl border shadow-sm border-gray-200 py-6''
       @ ''\" ></div>''
   \<and> (createAttributesStringified
      (getAvatarAttributes
         (omit_keys [''variant'', ''size'', ''className'', ''name'', ''src'', ''alt''] p))
    = [] \<and> get_prop p ''name'' = JStr n \<and> \<not> truthy (get_prop p ''src'') \<longrightarrow>
      createAvatar twMerge p
      = Inr (''<div data-slot=\"avatar\" class=\"''
             @ cn twMerge [JStr (avatarVariants [(''variant'', get_prop p ''variant''),
                                                 (''size'', get_prop p ''size'')]),
                           get_prop p ''className'']
             @ '' flex items-center justify-center font-semibold\" >'' @ spec_initials n
             @ ''</div>''))
   \<and> (createAttributesStringified
      (getAvatarAttributes
         (omit_keys [''variant'', ''size'', ''className'', ''name'', ''src'', ''alt''] p))
    = [] \<and> truthy (get_prop p ''src'')
    \<and> ((\<exists>s. get_prop p ''name'' = JStr s) \<or> \<not> truthy (get_prop p ''name'')) \<longrightarrow>
      createAvatar twMerge p
      = Inr (''<img data-slot=\"avatar\" class=\"''
             @ cn twMerge [JStr (avatarVariants [(''variant'', get_prop p ''variant''),
                                                 (''size'', get_prop p ''size'')]),
                           get_prop p ''className'']
             @ ''\" src=\"'' @ to_String (get_prop p ''src'') @ ''\" alt=\"''
             @ to_String (js_or (get_prop p ''alt'')
                                (js_or (get_prop p ''name'') (JStr ''Avatar'')))
             @ ''\"  />''))"
proof (intro conjI impI)
  assume "createAttributesStringified
      (getCardAttributes (omit_keys [''variant'', ''padding'', ''className'', ''children''] p))
    = []"
  then show "createCard twMerge p
      = ''<div data-slot=\"card\" class=\"''
        @ cn twMerge [JStr (cardVariants [(''variant'', get_prop p ''variant''),
                                          (''padding'', get_prop p ''padding'')]),
                      get_prop p ''className'']
        @ ''\" >'' @ children_content (get_prop p ''children'') @ ''</div>''"
    by (simp add: createCard_def)
next
  assume "createAttributesStringified
      (getCardHeaderAttributes (omit_keys [''className'', ''children''] p)) = []"
  then show "createCardHeader twMerge p
      = ''<div data-slot=\"card-header\" class=\"''
        @ cn twMerge [JStr ''@container/card-header grid auto-rows-min grid-rows-[auto_auto] items-start gap-2 px-6 has-data-[slot=card-action]:grid-cols-[1fr_auto] [.border-b]:pb-6'',
                      get_prop p ''className'']
        @ ''\" >'' @ children_content (get_prop p ''children'') @ ''</div>''"
    by (simp add: createCardHeader_def)
next
  assume "createAttributesStringified
      (getCardTitleAttributes (omit_keys [''className'', ''children''] p)) = []"
  then show "createCardTitle twMerge p
      = ''<div data-slot=\"card-title\" class=\"''
        @ cn twMerge [JStr ''leading-none font-semibold'',
                      get_prop p ''className'']
        @ ''\" >'' @ children_content (get_prop p ''children'') @ ''</div>''"
    by (simp add: createCardTitle_def)
next
  assume "createAttributesStringified
      (getCardDescriptionAttributes (omit_keys [''className'', ''children''] p)) = []"
  then show "createCardDescription twMerge p
      = ''<div data-slot=\"card-description\" class=\"''
        @ cn twMerge [JStr ''text-muted-foreground text-sm'',
                      get_prop p ''className'']
        @ ''\" >'' @ children_content (get_prop p ''children'') @ ''</div>''"
    by (simp add: createCardDescription_def)
next
  assume "createAttributesStringified
      (getCardActionAttributes (omit_keys [''className'', ''children''] p)) = []"
  then show "createCardAction twMerge p
      = ''<div data-slot=\"card-action\" class=\"''
        @ cn twMerge [JStr ''col-start-2 row-span-2 row-start-1 self-start justify-self-end'',
                      get_prop p ''className'']
        @ ''\" >'' @ children_content (get_prop p ''children'') @ ''</div>''"
    by (simp add: createCardAction_def)
next
  assume "createAttributesStringified
      (getCardContentAttributes (omit_keys [''className'', ''children''] p)) = []"
  then show "createCardContent twMerge p
      = ''<div data-slot=\"card-content\" class=\"''
        @ cn twMerge [JStr ''px-6'',
                      get_prop p ''className'']
        @ ''\" >'' @ children_content (get_prop p ''children'') @ ''</div>''"
    by (simp add: createCardContent_def)
next
  assume "createAttributesStringified
      (getCardFooterAttributes (omit_keys [''className'', ''children''] p)) = []"
  then show "createCardFooter twMerge p
      = ''<div data-slot=\"card-footer\" class=\"''
        @ cn twMerge [JStr ''flex items-center px-6 [.border-t]:pt-6'',
                      get_prop p ''className'']
        @ ''\" >'' @ children_content (get_prop p ''children'') @ ''</div>''"
    by (simp add: createCardFooter_def)
next
  assume "createAttributesStringified (omit_keys [''variant'', ''className'', ''children''] p) = []"
  then show "createBadge twMerge p
      = ''<span class=\"''
        @ cn twMerge [JStr (badgeVariants [(''variant'', get_prop p ''variant'')]),
                      get_prop p ''className'']
        @ ''\" >'' @ children_content (get_prop p ''children'') @ ''</span>''"
    by (simp add: createBadge_def)
next
  assume "createAttributesStringified
      (getInputAttributes (omit_keys [''variant'', ''size'', ''state'', ''className''] p))
    = []"
  then show "createInput twMerge p
      = ''<input class=\"''
        @ cn twMerge [JStr (inputVariants [(''variant'', get_prop p ''variant''),
                                           (''size'', get_prop p ''size''),
                                           (''state'', get_prop p ''state'')]),
                      get_prop p ''className'']
        @ ''\"  />''"
    by (simp add: createInput_def)
next
  assume "createAttributesStringified
      (getAvatarAttributes
         (omit_keys [''variant'', ''size'', ''className'', ''name'', ''src'', ''alt''] p))
    = [] \<and> \<not> truthy (get_prop p ''name'') \<and> \<not> truthy (get_prop p ''src'')"
  then show "createAvatar twMerge p
      = Inr (''<div data-slot=\"avatar\" class=\"''
             @ cn twMerge [JStr (avatarVariants [(''variant'', get_prop p ''variant''),
                                                 (''size'', get_prop p ''size'')]),
                           get_prop p ''className'']
             @ '' flex items-center justify-center font-semibold\" ></div>'')"
    by (simp add: createAvatar_def)
next
  assume "createAttributesStringified
      (getKPIAttributes (omit_keys [''variant'', ''size'', ''className''] p)) = []"
  then show "(\<exists>rest. createKPI twMerge p
        = ''<div class=\"''
          @ cn twMerge [JStr (kpiVariants [(''variant'', get_prop p ''variant''),
                                           (''size'', get_prop p ''size'')]),
                        get_prop p ''className'']
          @ ''\" >'' @ rest)"
    by (simp add: createKPI_def kpi_template_def trim_def is_space_def Let_def)
next
  assume "\<not> truthy (get_prop p ''data-testid'')"
  then show "(\<exists>rest. createActivityItem p
        = ''\<newline>    <div class=\"'' @ getActivityItemClasses p @ ''\" >'' @ rest)"
    by (simp add: createActivityItem_def activity_item_template_def data_testid_attribute_def)
next
  assume "\<not> truthy (get_prop p ''data-testid'') \<and> createUserInfoFields p = Inr markup"
  then show "(\<exists>rest. markup = ''\<newline>    <div class=\"space-y-4\" >'' @ rest)"
    by (auto simp: createUserInfoFields_def user_info_template_def data_testid_attribute_def
        split: sum.splits)
next
  show "createCard twMerge []
     = ''<div data-slot=\"card\" class=\"''
       @ twMerge ''bg-card text-card-foreground flex flex-col gap-6 rounded-xl border shadow-sm border-gray-200 py-6''
       @ ''\" ></div>''"
    by (simp add: createCard_def cn_def clsx_def cardVariants_def cva_def variant_class_def
        get_prop_def js_or_def getCardAttributes_def omit_keys_def
        createAttributesStringified_def children_content_def)
next
  assume h: "createAttributesStringified
      (getAvatarAttributes
         (omit_keys [''variant'', ''size'', ''className'', ''name'', ''src'', ''alt''] p))
    = [] \<and> get_prop p ''name'' = JStr n \<and> \<not> truthy (get_prop p ''src'')"
  have "(if truthy (JStr n) then getInitials (JStr n) else Inr []) = Inr (spec_initials n)"
    by (cases "n = []") (simp_all add: getInitials_spec spec_initials_def spec_tokens_def
        del: getInitials.simps)
  with h show "createAvatar twMerge p
      = Inr (''<div data-slot=\"avatar\" class=\"''
             @ cn twMerge [JStr (avatarVariants [(''variant'', get_prop p ''variant''),
                                                 (''size'', get_prop p ''size'')]),
                           get_prop p ''className'']
             @ '' flex items-center justify-center font-semibold\" >'' @ spec_initials n
             @ ''</div>'')"
    by (simp add: createAvatar_def Let_def del: getInitials.simps)
next
  assume h: "createAttributesStringified
      (getAvatarAttributes
         (omit_keys [''variant'', ''size'', ''className'', ''name'', ''src'', ''alt''] p))
    = [] \<and> truthy (get_prop p ''src'')
    \<and> ((\<exists>s. get_prop p ''name'' = JStr s) \<or> \<not> truthy (get_prop p ''name''))"
  then have "\<exists>initials. getInitials (get_prop p ''name'') = Inr initials"
    using getInitials_ok [of "get_prop p ''name''"] by blast
  then obtain initials where "getInitials (get_prop p ''name'') = Inr initials" ..
  with h show "createAvatar twMerge p
      = Inr (''<img data-slot=\"avatar\" class=\"''
             @ cn twMerge [JStr (avatarVariants [(''variant'', get_prop p ''variant''),
                                                 (''size'', get_prop p ''size'')]),
                           get_prop p ''className'']
             @ ''\" src=\"'' @ to_String (get_prop p ''src'') @ ''\" alt=\"''
             @ to_String (js_or (get_prop p ''alt'')
                                (js_or (get_prop p ''name'') (JStr ''Avatar'')))
             @ ''\"  />'')"
    by (simp add: createAvatar_def Let_def del: getInitials.simps)
qed


theorem empty_attributes_leave_a_space_witness:
  "\<forall>twMerge.
     createCard twMerge [(''className'', JStr ''mt-2'')]
      = ''<div data-slot=\"card\" class=\"''
        @ twMerge ''bg-card text-card-foreground flex flex-col gap-6 rounded-xl border shadow-sm border-gray-200 py-6 mt-2''
        @ ''\" >'' @ [] @ ''</div>''
   \<and> createCardHeader twMerge [(''className'', JStr ''mt-2'')]
      = ''<div data-slot=\"card-header\" class=\"''
        @ twMerge ''@container/card-header grid auto-rows-min grid-rows-[auto_auto] items-start gap-2 px-6 has-data-[slot=card-action]:grid-cols-[1fr_auto] [.border-b]:pb-6 mt-2''
        @ ''\" >'' @ [] @ ''</div>''
   \<and> createCardTitle twMerge [(''className'', JStr ''mt-2'')]
      = ''<div data-slot=\"card-title\" class=\"''
        @ twMerge ''leading-none font-semibold mt-2''
        @ ''\" >'' @ [] @ ''</div>''
   \<and> createCardDescription twMerge [(''className'', JStr ''mt-2'')]
      = ''<div data-slot=\"card-description\" class=\"''
        @ twMerge ''text-muted-foreground text-sm mt-2''
        @ ''\" >'' @ [] @ ''</div>''
   \<and> createCardAction twMerge [(''className'', JStr ''mt-2'')]
      = ''<div data-slot=\"card-action\" class=\"''
        @ twMerge ''col-start-2 row-span-2 row-start-1 self-start justify-self-end mt-2''
        @ ''\" >'' @ [] @ ''</div>''
   \<and> createCardContent twMerge [(''className'', JStr ''mt-2'')]
      = ''<div data-slot=\"card-content\" class=\"''
        @ twMerge ''px-6 mt-2''
        @ ''\" >'' @ [] @ ''</div>''
   \<and> createCardFooter twMerge [(''className'', JStr ''mt-2'')]
      = ''<div data-slot=\"card-footer\" class=\"''
        @ twMerge ''flex items-center px-6 [.border-t]:pt-6 mt-2''
        @ ''\" >'' @ [] @ ''</div>''
   \<and> createBadge twMerge [(''className'', JStr ''mt-2'')]
      = ''<span class=\"''
        @ twMerge ''inline-flex items-center justify-center rounded-full border px-2 py-0.5 text-xs font-medium w-fit whitespace-nowrap shrink-0 [&>svg]:size-3 gap-1 [&>svg]:pointer-events-none focus-visible:border-ring focus-visible:ring-ring/50 focus-visible:ring-[3px] aria-invalid:ring-destructive/20 dark:aria-invalid:ring-destructive/40 aria-invalid:border-destructive transition-[color,box-shadow] overflow-hidden border-transparent bg-primary text-primary-foreground [a&]:hover:bg-primary/90 mt-2''
        @ ''\" >'' @ [] @ ''</span>''
   \<and> createInput twMerge [(''className'', JStr ''mt-2'')]
      = ''<input class=\"''
        @ twMerge ''w-full appearance-none bg-white text-foreground placeholder:text-muted-foreground border border-gray-300 rounded-md ring-offset-white transition-colors focus-visible:outline-none focus-visible:ring-2 focus-visible:ring-primary focus-visible:ring-offset-2 disabled:cursor-not-allowed disabled:opacity-50 h-9 px-3 text-sm mt-2''
        @ ''\"  />''
   \<and> createAvatar twMerge [(''className'', JStr ''mt-2'')]
      = Inr (''<div data-slot=\"avatar\" class=\"''
             @ twMerge ''relative flex shrink-0 overflow-hidden rounded-full bg-muted size-10 text-sm mt-2''
             @ '' flex items-center justify-center font-semibold\" ></div>'')
   \<and> (\<exists>rest. createKPI twMerge [(''className'', JStr ''mt-2'')]
        = ''<div class=\"''
          @ twMerge ''rounded-lg border bg-card text-card-foreground shadow-sm transition-all hover:shadow-md border-gray-200 p-6 mt-2''
          @ ''\" >'' @ rest)
   \<and> (\<exists>rest. createActivityItem [(''className'', JStr ''mt-2'')]
        = ''\<newline>    <div class=\"'' @ ''flex items-center justify-between py-4 hover:bg-gray-50 px-4 rounded-lg transition-colors border-b border-gray-100 mt-2'' @ ''\" >'' @ rest)
   \<and> (\<exists>rest. createUserInfoFields [(''user'', JObj [])]
       = Inr (''\<newline>    <div class=\"space-y-4\" >'' @ rest))
   \<and> createAvatar twMerge [(''name'', JStr ''Ada Lovelace'')]
      = Inr (''<div data-slot=\"avatar\" class=\"''
             @ twMerge ''relative flex shrink-0 overflow-hidden rounded-full bg-muted size-10 text-sm''
             @ '' flex items-center justify-center font-semibold\" >AL</div>'')
   \<and> createAvatar twMerge [(''src'', JStr ''/a.png'')]
      = Inr (''<img data-slot=\"avatar\" class=\"''
             @ twMerge ''relative flex shrink-0 overflow-hidden rounded-full bg-muted size-10 text-sm''
             @ ''\" src=\"/a.png\" alt=\"Avatar\"  />'')"
proof (intro allI conjI)
  fix twMerge :: "string \<Rightarrow> string"
  have no_children: "children_content (get_prop [(''className'', JStr ''mt-2'')] ''children'') = []"
    by (simp add: children_content_def get_prop_def)
  have c0: "cn twMerge [JStr (cardVariants [(''variant'', get_prop [(''className'', JStr ''mt-2'')] ''variant''),
                                          (''padding'', get_prop [(''className'', JStr ''mt-2'')] ''padding'')]),
                      get_prop [(''className'', JStr ''mt-2'')] ''className'']
            = twMerge ''bg-card text-card-foreground flex flex-col gap-6 rounded-xl border shadow-sm border-gray-200 py-6 mt-2''"
    by (simp add: cn_def clsx_def cva_def variant_class_def get_prop_def js_or_def cardVariants_def)
  have "createAttributesStringified
      (getCardAttributes (omit_keys [''variant'', ''padding'', ''className'', ''children''] [(''className'', JStr ''mt-2'')]))
    = []"
    by (simp add: omit_keys_def createAttributesStringified_def getCardAttributes_def)
  with empty_attributes_leave_a_space
    [where p = "[(''className'', JStr ''mt-2'')]" and twMerge = twMerge,
     THEN conjunct1]
  have "createCard twMerge [(''className'', JStr ''mt-2'')]
      = ''<div data-slot=\"card\" class=\"''
        @ cn twMerge [JStr (cardVariants [(''variant'', get_prop [(''className'', JStr ''mt-2'')] ''variant''),
                                          (''padding'', get_prop [(''className'', JStr ''mt-2'')] ''padding'')]),
                      get_prop [(''className'', JStr ''mt-2'')] ''className'']
        @ ''\" >'' @ children_content (get_prop [(''className'', JStr ''mt-2'')] ''children'') @ ''</div>''"
    by (rule mp)
  then show "createCard twMerge [(''className'', JStr ''mt-2'')]
      = ''<div data-slot=\"card\" class=\"''
        @ twMerge ''bg-card text-card-foreground flex flex-col gap-6 rounded-xl border shadow-sm border-gray-200 py-6 mt-2''
        @ ''\" >'' @ [] @ ''</div>''"
    by (simp only: c0 no_children)
  have c1: "cn twMerge [JStr ''@container/card-header grid auto-rows-min grid-rows-[auto_auto] items-start gap-2 px-6 has-data-[slot=card-action]:grid-cols-[1fr_auto] [.border-b]:pb-6'',
                      get_prop [(''className'', JStr ''mt-2'')] ''className'']
            = twMerge ''@container/card-header grid auto-rows-min grid-rows-[auto_auto] items-start gap-2 px-6 has-data-[slot=card-action]:grid-cols-[1fr_auto] [.border-b]:pb-6 mt-2''"
    by (simp add: cn_def clsx_def cva_def variant_class_def get_prop_def js_or_def)
  have "createAttributesStringified
      (getCardHeaderAttributes (omit_keys [''className'', ''children''] [(''className'', JStr ''mt-2'')])) = []"
    by (simp add: omit_keys_def createAttributesStringified_def getCardHeaderAttributes_def)
  with empty_attributes_leave_a_space
    [where p = "[(''className'', JStr ''mt-2'')]" and twMerge = twMerge,
     THEN conjunct2, THEN conjunct1]
  have "createCardHeader twMerge [(''className'', JStr ''mt-2'')]
      = ''<div data-slot=\"card-header\" class=\"''
        @ cn twMerge [JStr ''@container/card-header grid auto-rows-min grid-rows-[auto_auto] items-start gap-2 px-6 has-data-[slot=card-action]:grid-cols-[1fr_auto] [.border-b]:pb-6'',
                      get_prop [(''className'', JStr ''mt-2'')] ''className'']
        @ ''\" >'' @ children_content (get_prop [(''className'', JStr ''mt-2'')] ''children'') @ ''</div>''"
    by (rule mp)
  then show "createCardHeader twMerge [(''className'', JStr ''mt-2'')]
      = ''<div data-slot=\"card-header\" class=\"''
        @ twMerge ''@container/card-header grid auto-rows-min grid-rows-[auto_auto] items-start gap-2 px-6 has-data-[slot=card-action]:grid-cols-[1fr_auto] [.border-b]:pb-6 mt-2''
        @ ''\" >'' @ [] @ ''</div>''"
    by (simp only: c1 no_children)
  have c2: "cn twMerge [JStr ''leading-none font-semibold'',
                      get_prop [(''className'', JStr ''mt-2'')] ''className'']
            = twMerge ''leading-none font-semibold mt-2''"
    by (simp add: cn_def clsx_def cva_def variant_class_def get_prop_def js_or_def)
  have "createAttributesStringified
      (getCardTitleAttributes (omit_keys [''className'', ''children''] [(''className'', JStr ''mt-2'')])) = []"
    by (simp add: omit_keys_def createAttributesStringified_def getCardTitleAttributes_def)
  with empty_attributes_leave_a_space
    [where p = "[(''className'', JStr ''mt-2'')]" and twMerge = twMerge,
     THEN conjunct2, THEN conjunct2, THEN conjunct1]
  have "createCardTitle twMerge [(''className'', JStr ''mt-2'')]
      = ''<div data-slot=\"card-title\" class=\"''
        @ cn twMerge [JStr ''leading-none font-semibold'',
                      get_prop [(''className'', JStr ''mt-2'')] ''className'']
        @ ''\" >'' @ children_content (get_prop [(''className'', JStr ''mt-2'')] ''children'') @ ''</div>''"
    by (rule mp)
  then show "createCardTitle twMerge [(''className'', JStr ''mt-2'')]
      = ''<div data-slot=\"card-title\" class=\"''
        @ twMerge ''leading-none font-semibold mt-2''
        @ ''\" >'' @ [] @ ''</div>''"
    by (simp only: c2 no_children)
  have c3: "cn twMerge [JStr ''text-muted-foreground text-sm'',
                      get_prop [(''className'', JStr ''mt-2'')] ''className'']
            = twMerge ''text-muted-foreground text-sm mt-2''"
    by (simp add: cn_def clsx_def cva_def variant_class_def get_prop_def js_or_def)
  have "createAttributesStringified
      (getCardDescriptionAttributes (omit_keys [''className'', ''children''] [(''className'', JStr ''mt-2'')])) = []"
    by (simp add: omit_keys_def createAttributesStringified_def getCardDescriptionAttributes_def)
  with empty_attributes_leave_a_space
    [where p = "[(''className'', JStr ''mt-2'')]" and twMerge = twMerge,
     THEN conjunct2, THEN conjunct2, THEN conjunct2, THEN conjunct1]
  have "createCardDescription twMerge [(''className'', JStr ''mt-2'')]
      = ''<div data-slot=\"card-description\" class=\"''
        @ cn twMerge [JStr ''text-muted-foreground text-sm'',
                      get_prop [(''className'', JStr ''mt-2'')] ''className'']
        @ ''\" >'' @ children_content (get_prop [(''className'', JStr ''mt-2'')] ''children'') @ ''</div>''"
    by (rule mp)
  then show "createCardDescription twMerge [(''className'', JStr ''mt-2'')]
      = ''<div data-slot=\"card-description\" class=\"''
        @ twMerge ''text-muted-foreground text-sm mt-2''
        @ ''\" >'' @ [] @ ''</div>''"
    by (simp only: c3 no_children)
  have c4: "cn twMerge [JStr ''col-start-2 row-span-2 row-start-1 self-start justify-self-end'',
                      get_prop [(''className'', JStr ''mt-2'')] ''className'']
            = twMerge ''col-start-2 row-span-2 row-start-1 self-start justify-self-end mt-2''"
    by (simp add: cn_def clsx_def cva_def variant_class_def get_prop_def js_or_def)
  have "createAttributesStringified
      (getCardActionAttributes (omit_keys [''className'', ''children''] [(''className'', JStr ''mt-2'')])) = []"
    by (simp add: omit_keys_def createAttributesStringified_def getCardActionAttributes_def)
  with empty_attributes_leave_a_space
    [where p = "[(''className'', JStr ''mt-2'')]" and twMerge = twMerge,
     THEN conjunct2, THEN conjunct2, THEN conjunct2, THEN conjunct2, THEN conjunct1]
  have "createCardAction twMerge [(''className'', JStr ''mt-2'')]
      = ''<div data-slot=\"card-action\" class=\"''
        @ cn twMerge [JStr ''col-start-2 row-span-2 row-start-1 self-start justify-self-end'',
                      get_prop [(''className'', JStr ''mt-2'')] ''className'']
        @ ''\" >'' @ children_content (get_prop [(''className'', JStr ''mt-2'')] ''children'') @ ''</div>''"
    by (rule mp)
  then show "createCardAction twMerge [(''className'', JStr ''mt-2'')]
      = ''<div data-slot=\"card-action\" class=\"''
        @ twMerge ''col-start-2 row-span-2 row-start-1 self-start justify-self-end mt-2''
        @ ''\" >'' @ [] @ ''</div>''"
    by (simp only: c4 no_children)
  have c5: "cn twMerge [JStr ''px-6'',
                      get_prop [(''className'', JStr ''mt-2'')] ''className'']
            = twMerge ''px-6 mt-2''"
    by (simp add: cn_def clsx_def cva_def variant_class_def get_prop_def js_or_def)
  have "createAttributesStringified
      (getCardContentAttributes (omit_keys [''className'', ''children''] [(''className'', JStr ''mt-2'')])) = []"
    by (simp add: omit_keys_def createAttributesStringified_def getCardContentAttributes_def)
  with empty_attributes_leave_a_space
    [where p = "[(''className'', JStr ''mt-2'')]" and twMerge = twMerge,
     THEN conjunct2, THEN conjunct2, THEN conjunct2, THEN conjunct2, THEN conjunct2, THEN conjunct1]
  have "createCardContent twMerge [(''className'', JStr ''mt-2'')]
      = ''<div data-slot=\"card-content\" class=\"''
        @ cn twMerge [JStr ''px-6'',
                      get_prop [(''className'', JStr ''mt-2'')] ''className'']
        @ ''\" >'' @ children_content (get_prop [(''className'', JStr ''mt-2'')] ''children'') @ ''</div>''"
    by (rule mp)
  then show "createCardContent twMerge [(''className'', JStr ''mt-2'')]
      = ''<div data-slot=\"card-content\" class=\"''
        @ twMerge ''px-6 mt-2''
        @ ''\" >'' @ [] @ ''</div>''"
    by (simp only: c5 no_children)
  have c6: "cn twMerge [JStr ''flex items-center px-6 [.border-t]:pt-6'',
                      get_prop [(''className'', JStr ''mt-2'')] ''className'']
            = twMerge ''flex items-center px-6 [.border-t]:pt-6 mt-2''"
    by (simp add: cn_def clsx_def cva_def variant_class_def get_prop_def js_or_def)
  have "createAttributesStringified
      (getCardFooterAttributes (omit_keys [''className'', ''children''] [(''className'', JStr ''mt-2'')])) = []"
    by (simp add: omit_keys_def createAttributesStringified_def getCardFooterAttributes_def)
  with empty_attributes_leave_a_space
    [where p = "[(''className'', JStr ''mt-2'')]" and twMerge = twMerge,
     THEN conjunct2, THEN conjunct2, THEN conjunct2, THEN conjunct2, THEN conjunct2, THEN conjunct2, THEN conjunct1]
  have "createCardFooter twMerge [(''className'', JStr ''mt-2'')]
      = ''<div data-slot=\"card-footer\" class=\"''
        @ cn twMerge [JStr ''flex items-center px-6 [.border-t]:pt-6'',
                      get_prop [(''className'', JStr ''mt-2'')] ''className'']
        @ ''\" >'' @ children_content (get_prop [(''className'', JStr ''mt-2'')] ''children'') @ ''</div>''"
    by (rule mp)
  then show "createCardFooter twMerge [(''className'', JStr ''mt-2'')]
      = ''<div data-slot=\"card-footer\" class=\"''
        @ twMerge ''flex items-center px-6 [.border-t]:pt-6 mt-2''
        @ ''\" >'' @ [] @ ''</div>''"
    by (simp only: c6 no_children)
  have c7: "cn twMerge [JStr (badgeVariants [(''variant'', get_prop [(''className'', JStr ''mt-2'')] ''variant'')]),
                      get_prop [(''className'', JStr ''mt-2'')] ''className'']
            = twMerge ''inline-flex items-center justify-center rounded-full border px-2 py-0.5 text-xs font-medium w-fit whitespace-nowrap shrink-0 [&>svg]:size-3 gap-1 [&>svg]:pointer-events-none focus-visible:border-ring focus-visible:ring-ring/50 focus-visible:ring-[3px] aria-invalid:ring-destructive/20 dark:aria-invalid:ring-destructive/40 aria-invalid:border-destructive transition-[color,box-shadow] overflow-hidden border-transparent bg-primary text-primary-foreground [a&]:hover:bg-primary/90 mt-2''"
    by (simp add: cn_def clsx_def cva_def variant_class_def get_prop_def js_or_def badgeVariants_def)
  have "createAttributesStringified (omit_keys [''variant'', ''className'', ''children''] [(''className'', JStr ''mt-2'')]) = []"
    by (simp add: omit_keys_def createAttributesStringified_def )
  with empty_attributes_leave_a_space
    [where p = "[(''className'', JStr ''mt-2'')]" and twMerge = twMerge,
     THEN conjunct2, THEN conjunct2, THEN conjunct2, THEN conjunct2, THEN conjunct2, THEN conjunct2, THEN conjunct2, THEN conjunct1]
  have "createBadge twMerge [(''className'', JStr ''mt-2'')]
      = ''<span class=\"''
        @ cn twMerge [JStr (badgeVariants [(''variant'', get_prop [(''className'', JStr ''mt-2'')] ''variant'')]),
                      get_prop [(''className'', JStr ''mt-2'')] ''className'']
        @ ''\" >'' @ children_content (get_prop [(''className'', JStr ''mt-2'')] ''children'') @ ''</span>''"
    by (rule mp)
  then show "createBadge twMerge [(''className'', JStr ''mt-2'')]
      = ''<span class=\"''
        @ twMerge ''inline-flex items-center justify-center rounded-full border px-2 py-0.5 text-xs font-medium w-fit whitespace-nowrap shrink-0 [&>svg]:size-3 gap-1 [&>svg]:pointer-events-none focus-visible:border-ring focus-visible:ring-ring/50 focus-visible:ring-[3px] aria-invalid:ring-destructive/20 dark:aria-invalid:ring-destructive/40 aria-invalid:border-destructive transition-[color,box-shadow] overflow-hidden border-transparent bg-primary text-primary-foreground [a&]:hover:bg-primary/90 mt-2''
        @ ''\" >'' @ [] @ ''</span>''"
    by (simp only: c7 no_children)
  have c8: "cn twMerge [JStr (inputVariants [(''variant'', get_prop [(''className'', JStr ''mt-2'')] ''variant''),
                                           (''size'', get_prop [(''className'', JStr ''mt-2'')] ''size''),
                                           (''state'', get_prop [(''className'', JStr ''mt-2'')] ''state'')]),
                      get_prop [(''className'', JStr ''mt-2'')] ''className'']
            = twMerge ''w-full appearance-none bg-white text-foreground placeholder:text-muted-foreground border border-gray-300 rounded-md ring-offset-white transition-colors focus-visible:outline-none focus-visible:ring-2 focus-visible:ring-primary focus-visible:ring-offset-2 disabled:cursor-not-allowed disabled:opacity-50 h-9 px-3 text-sm mt-2''"
    by (simp add: cn_def clsx_def cva_def variant_class_def get_prop_def js_or_def inputVariants_def)
  have "createAttributesStringified
      (getInputAttributes (omit_keys [''variant'', ''size'', ''state'', ''className''] [(''className'', JStr ''mt-2'')]))
    = []"
    by (simp add: omit_keys_def createAttributesStringified_def getInputAttributes_def spread_if_def get_prop_def Let_def)
  with empty_attributes_leave_a_space
    [where p = "[(''className'', JStr ''mt-2'')]" and twMerge = twMerge,
     THEN conjunct2, THEN conjunct2, THEN conjunct2, THEN conjunct2, THEN conjunct2, THEN conjunct2, THEN conjunct2, THEN conjunct2, THEN conjunct1]
  have "createInput twMerge [(''className'', JStr ''mt-2'')]
      = ''<input class=\"''
        @ cn twMerge [JStr (inputVariants [(''variant'', get_prop [(''className'', JStr ''mt-2'')] ''variant''),
                                           (''size'', get_prop [(''className'', JStr ''mt-2'')] ''size''),
                                           (''state'', get_prop [(''className'', JStr ''mt-2'')] ''state'')]),
                      get_prop [(''className'', JStr ''mt-2'')] ''className'']
        @ ''\"  />''"
    by (rule mp)
  then show "createInput twMerge [(''className'', JStr ''mt-2'')]
      = ''<input class=\"''
        @ twMerge ''w-full appearance-none bg-white text-foreground placeholder:text-muted-foreground border border-gray-300 rounded-md ring-offset-white transition-colors focus-visible:outline-none focus-visible:ring-2 focus-visible:ring-primary focus-visible:ring-offset-2 disabled:cursor-not-allowed disabled:opacity-50 h-9 px-3 text-sm mt-2''
        @ ''\"  />''"
    by (simp only: c8 no_children)
  have c9: "cn twMerge [JStr (avatarVariants [(''variant'', get_prop [(''className'', JStr ''mt-2'')] ''variant''),
                                                 (''size'', get_prop [(''className'', JStr ''mt-2'')] ''size'')]),
                           get_prop [(''className'', JStr ''mt-2'')] ''className'']
            = twMerge ''relative flex shrink-0 overflow-hidden rounded-full bg-muted size-10 text-sm mt-2''"
    by (simp add: cn_def clsx_def cva_def variant_class_def get_prop_def js_or_def avatarVariants_def)
  have "createAttributesStringified
      (getAvatarAttributes
         (omit_keys [''variant'', ''size'', ''className'', ''name'', ''src'', ''alt''] [(''className'', JStr ''mt-2'')]))
    = [] \<and> \<not> truthy (get_prop [(''className'', JStr ''mt-2'')] ''name'') \<and> \<not> truthy (get_prop [(''className'', JStr ''mt-2'')] ''src'')"
    by (simp add: omit_keys_def createAttributesStringified_def getAvatarAttributes_def get_prop_def)
  with empty_attributes_leave_a_space
    [where p = "[(''className'', JStr ''mt-2'')]" and twMerge = twMerge,
     THEN conjunct2, THEN conjunct2, THEN conjunct2, THEN conjunct2, THEN conjunct2, THEN conjunct2, THEN conjunct2, THEN conjunct2, THEN conjunct2, THEN conjunct1]
  have "createAvatar twMerge [(''className'', JStr ''mt-2'')]
      = Inr (''<div data-slot=\"avatar\" class=\"''
             @ cn twMerge [JStr (avatarVariants [(''variant'', get_prop [(''className'', JStr ''mt-2'')] ''variant''),
                                                 (''size'', get_prop [(''className'', JStr ''mt-2'')] ''size'')]),
                           get_prop [(''className'', JStr ''mt-2'')] ''className'']
             @ '' flex items-center justify-center font-semibold\" ></div>'')"
    by (rule mp)
  then show "createAvatar twMerge [(''className'', JStr ''mt-2'')]
      = Inr (''<div data-slot=\"avatar\" class=\"''
             @ twMerge ''relative flex shrink-0 overflow-hidden rounded-full bg-muted size-10 text-sm mt-2''
             @ '' flex items-center justify-center font-semibold\" ></div>'')"
    by (simp only: c9 no_children)
  have c10: "cn twMerge [JStr (kpiVariants [(''variant'', get_prop [(''className'', JStr ''mt-2'')] ''variant''),
                                           (''size'', get_prop [(''className'', JStr ''mt-2'')] ''size'')]),
                        get_prop [(''className'', JStr ''mt-2'')] ''className'']
            = twMerge ''rounded-lg border bg-card text-card-foreground shadow-sm transition-all hover:shadow-md border-gray-200 p-6 mt-2''"
    by (simp add: cn_def clsx_def cva_def variant_class_def get_prop_def js_or_def kpiVariants_def)
  have "createAttributesStringified
      (getKPIAttributes (omit_keys [''variant'', ''size'', ''className''] [(''className'', JStr ''mt-2'')])) = []"
    by (simp add: omit_keys_def createAttributesStringified_def getKPIAttributes_def)
  with empty_attributes_leave_a_space
    [where p = "[(''className'', JStr ''mt-2'')]" and twMerge = twMerge,
     THEN conjunct2, THEN conjunct2, THEN conjunct2, THEN conjunct2, THEN conjunct2, THEN conjunct2, THEN conjunct2, THEN conjunct2, THEN conjunct2, THEN conjunct2, THEN conjunct1]
  have "(\<exists>rest. createKPI twMerge [(''className'', JStr ''mt-2'')]
        = ''<div class=\"''
          @ cn twMerge [JStr (kpiVariants [(''variant'', get_prop [(''className'', JStr ''mt-2'')] ''variant''),
                                           (''size'', get_prop [(''className'', JStr ''mt-2'')] ''size'')]),
                        get_prop [(''className'', JStr ''mt-2'')] ''className'']
          @ ''\" >'' @ rest)"
    by (rule mp)
  then show "(\<exists>rest. createKPI twMerge [(''className'', JStr ''mt-2'')]
        = ''<div class=\"''
          @ twMerge ''rounded-lg border bg-card text-card-foreground shadow-sm transition-all hover:shadow-md border-gray-200 p-6 mt-2''
          @ ''\" >'' @ rest)"
    by (simp only: c10 no_children)
  have c11: "getActivityItemClasses [(''className'', JStr ''mt-2'')]
            = ''flex items-center justify-between py-4 hover:bg-gray-50 px-4 rounded-lg transition-colors border-b border-gray-100 mt-2''"
    by (simp add: getActivityItemClasses_def activityItemVariants_def clsx_def cva_def variant_class_def get_prop_def js_or_def)
  have "\<not> truthy (get_prop [(''className'', JStr ''mt-2'')] ''data-testid'')"
    by (simp add: omit_keys_def createAttributesStringified_def get_prop_def)
  with empty_attributes_leave_a_space
    [where p = "[(''className'', JStr ''mt-2'')]" and twMerge = twMerge,
     THEN conjunct2, THEN conjunct2, THEN conjunct2, THEN conjunct2, THEN conjunct2, THEN conjunct2, THEN conjunct2, THEN conjunct2, THEN conjunct2, THEN conjunct2, THEN conjunct2, THEN conjunct1]
  have "(\<exists>rest. createActivityItem [(''className'', JStr ''mt-2'')]
        = ''\<newline>    <div class=\"'' @ getActivityItemClasses [(''className'', JStr ''mt-2'')] @ ''\" >'' @ rest)"
    by (rule mp)
  then show "(\<exists>rest. createActivityItem [(''className'', JStr ''mt-2'')]
        = ''\<newline>    <div class=\"'' @ ''flex items-center justify-between py-4 hover:bg-gray-50 px-4 rounded-lg transition-colors border-b border-gray-100 mt-2'' @ ''\" >'' @ rest)"
    by (simp only: c11 no_children)
  have ui: "createUserInfoFields [(''user'', JObj [])]
            = Inr (user_info_template [] ''undefined'' ''undefined'' ''undefined'')"
    by (simp add: createUserInfoFields_def data_testid_attribute_def get_prop_def)
  have "\<not> truthy (get_prop [(''user'', JObj [])] ''data-testid'') \<and> createUserInfoFields [(''user'', JObj [])] = Inr (user_info_template [] ''undefined'' ''undefined'' ''undefined'')"
    using ui by (simp add: get_prop_def)
  with empty_attributes_leave_a_space
    [where p = "[(''user'', JObj [])]" and twMerge = twMerge
       and markup = "user_info_template [] ''undefined'' ''undefined'' ''undefined''",
     THEN conjunct2, THEN conjunct2, THEN conjunct2, THEN conjunct2, THEN conjunct2, THEN conjunct2, THEN conjunct2, THEN conjunct2, THEN conjunct2, THEN conjunct2, THEN conjunct2, THEN conjunct2, THEN conjunct1]
  have "(\<exists>rest. (user_info_template [] ''undefined'' ''undefined'' ''undefined'') = ''\<newline>    <div class=\"space-y-4\" >'' @ rest)"
    by (rule mp)
  with ui show "\<exists>rest. createUserInfoFields [(''user'', JObj [])]
       = Inr (''\<newline>    <div class=\"space-y-4\" >'' @ rest)"
    by simp
  have si: "spec_initials ''Ada Lovelace'' = ''AL''"
    by (simp add: spec_initials_def spec_tokens_def is_space_def toUpperCase_def
        upper_char_def)
  have "createAttributesStringified
      (getAvatarAttributes
         (omit_keys [''variant'', ''size'', ''className'', ''name'', ''src'', ''alt''] [(''name'', JStr ''Ada Lovelace'')]))
    = [] \<and> get_prop [(''name'', JStr ''Ada Lovelace'')] ''name'' = JStr ''Ada Lovelace'' \<and> \<not> truthy (get_prop [(''name'', JStr ''Ada Lovelace'')] ''src'')"
    by (simp add: omit_keys_def createAttributesStringified_def getAvatarAttributes_def
        get_prop_def)
  with empty_attributes_leave_a_space
    [where p = "[(''name'', JStr ''Ada Lovelace'')]" and twMerge = twMerge and n = "''Ada Lovelace''",
     THEN conjunct2, THEN conjunct2, THEN conjunct2, THEN conjunct2, THEN conjunct2, THEN conjunct2, THEN conjunct2, THEN conjunct2, THEN conjunct2, THEN conjunct2, THEN conjunct2, THEN conjunct2, THEN conjunct2, THEN conjunct2, THEN conjunct1]
  have "createAvatar twMerge [(''name'', JStr ''Ada Lovelace'')]
      = Inr (''<div data-slot=\"avatar\" class=\"''
             @ cn twMerge [JStr (avatarVariants [(''variant'', get_prop [(''name'', JStr ''Ada Lovelace'')] ''variant''),
                                                 (''size'', get_prop [(''name'', JStr ''Ada Lovelace'')] ''size'')]),
                           get_prop [(''name'', JStr ''Ada Lovelace'')] ''className'']
             @ '' flex items-center justify-center font-semibold\" >'' @ spec_initials ''Ada Lovelace''
             @ ''</div>'')"
    by (rule mp)
  then show "createAvatar twMerge [(''name'', JStr ''Ada Lovelace'')]
      = Inr (''<div data-slot=\"avatar\" class=\"''
             @ twMerge ''relative flex shrink-0 overflow-hidden rounded-full bg-muted size-10 text-sm''
             @ '' flex items-center justify-center font-semibold\" >AL</div>'')"
    by (simp add: si cn_def clsx_def avatarVariants_def cva_def variant_class_def get_prop_def js_or_def)
  have "createAttributesStringified
      (getAvatarAttributes
         (omit_keys [''variant'', ''size'', ''className'', ''name'', ''src'', ''alt''] [(''src'', JStr ''/a.png'')]))
    = [] \<and> truthy (get_prop [(''src'', JStr ''/a.png'')] ''src'')
    \<and> ((\<exists>s. get_prop [(''src'', JStr ''/a.png'')] ''name'' = JStr s) \<or> \<not> truthy (get_prop [(''src'', JStr ''/a.png'')] ''name''))"
    by (simp add: omit_keys_def createAttributesStringified_def getAvatarAttributes_def
        get_prop_def)
  with empty_attributes_leave_a_space
    [where p = "[(''src'', JStr ''/a.png'')]" and twMerge = twMerge,
     THEN conjunct2, THEN conjunct2, THEN conjunct2, THEN conjunct2, THEN conjunct2, THEN conjunct2, THEN conjunct2, THEN conjunct2, THEN conjunct2, THEN conjunct2, THEN conjunct2, THEN conjunct2, THEN conjunct2, THEN conjunct2, THEN conjunct2]
  have "createAvatar twMerge [(''src'', JStr ''/a.png'')]
      = Inr (''<img data-slot=\"avatar\" class=\"''
             @ cn twMerge [JStr (avatarVariants [(''variant'', get_prop [(''src'', JStr ''/a.png'')] ''variant''),
                                                 (''size'', get_prop [(''src'', JStr ''/a.png'')] ''size'')]),
                           get_prop [(''src'', JStr ''/a.png'')] ''className'']
             @ ''\" src=\"'' @ to_String (get_prop [(''src'', JStr ''/a.png'')] ''src'') @ ''\" alt=\"''
             @ to_String (js_or (get_prop [(''src'', JStr ''/a.png'')] ''alt'')
                                (js_or (get_prop [(''src'', JStr ''/a.png'')] ''name'') (JStr ''Avatar'')))
             @ ''\"  />'')"
    by (rule mp)
  then show "createAvatar twMerge [(''src'', JStr ''/a.png'')]
      = Inr (''<img data-slot=\"avatar\" class=\"''
             @ twMerge ''relative flex shrink-0 overflow-hidden rounded-full bg-muted size-10 text-sm''
             @ ''\" src=\"/a.png\" alt=\"Avatar\"  />'')"
    by (simp add: cn_def clsx_def avatarVariants_def cva_def variant_class_def get_prop_def js_or_def)
qed

end
